theory Spec2Isabelle
  imports Complex_Main "HOL-Library.Sublist" "HOL-Library.AList"
begin

section \<open>The goal panel: values, parsing, classification, normalisation\<close>

text \<open>
  The dashboard logic of \<^verbatim>\<open>index.tsx\<close>: \<^verbatim>\<open>parseValue\<close>, \<^verbatim>\<open>getStatus\<close>,
  \<^verbatim>\<open>getSimplifiedStatus\<close>, the counting loop of \<^verbatim>\<open>renderAllYearCharts\<close> and the data part of
  \<^verbatim>\<open>initializeData\<close>, together with the operations of the host language they call.
\<close>

subsection \<open>Numbers\<close>

text \<open>
  A JavaScript number is NaN, an infinity, or a finite value given by its exact rational
  value (the two zeros are not told apart: no operation below distinguishes them).
  The results of \<^verbatim>\<open>parseFloat\<close> and of \<^verbatim>\<open>*\<close> are rounded to binary64, to nearest with ties
  to even: 53 significant bits, least binary exponent \<open>-1022\<close> (below it the spacing stays
  \<open>2^-1074\<close>), and a rounded magnitude of \<open>2^1024\<close> or more is an infinity.
\<close>

datatype number = NaN | NegInf | Fin rat | PosInf

definition isNaN :: "number \<Rightarrow> bool" where
  "isNaN x = (x = NaN)"

definition pow2 :: "int \<Rightarrow> rat" where
  "pow2 k = (if 0 \<le> k then 2 ^ nat k else 1 / 2 ^ nat (- k))"

definition pow10 :: "int \<Rightarrow> rat" where
  "pow10 k = (if 0 \<le> k then 10 ^ nat k else 1 / 10 ^ nat (- k))"

function expUp :: "rat \<Rightarrow> int \<Rightarrow> int" where
  "expUp q e = (if 2 \<le> q then expUp (q / 2) (e + 1) else e)"
  by pat_completeness auto
termination
proof (relation "measure (\<lambda>(q, e). nat \<lfloor>q\<rfloor>)")
  show "wf (measure (\<lambda>(q :: rat, e :: int). nat \<lfloor>q\<rfloor>))"
    by simp
next
  fix q :: rat and e :: int
  assume q: "2 \<le> q"
  have "q / 2 < of_int \<lfloor>q\<rfloor>"
  proof -
    have "q < of_int \<lfloor>q\<rfloor> + 1" by linarith
    moreover have "(2 :: rat) \<le> of_int \<lfloor>q\<rfloor>" using q by (simp add: le_floor_iff)
    ultimately show ?thesis by linarith
  qed
  then have "\<lfloor>q / 2\<rfloor> < \<lfloor>q\<rfloor>" by (simp add: floor_less_iff)
  moreover have "0 \<le> \<lfloor>q / 2\<rfloor>" using q by simp
  ultimately show "((q / 2, e + 1), (q, e)) \<in> measure (\<lambda>(q, e). nat \<lfloor>q\<rfloor>)"
    using q by simp
qed

function expDown :: "rat \<Rightarrow> int \<Rightarrow> int" where
  "expDown q e = (if q < 1 \<and> - 1022 < e then expDown (q * 2) (e - 1) else e)"
  by pat_completeness auto
termination
  by (relation "measure (\<lambda>(q, e). nat (e + 1022))") auto

definition binExponent :: "rat \<Rightarrow> int" where
  \<comment> \<open>for \<open>0 < q\<close>: the \<open>e\<close> with \<open>2^e \<le> q < 2^(e+1)\<close>, but never below \<open>-1022\<close>\<close>
  "binExponent q = (if 1 \<le> q then expUp q 0 else expDown q 0)"

definition roundTiesToEven :: "rat \<Rightarrow> int" where
  "roundTiesToEven q =
     (let f = \<lfloor>q\<rfloor>; d = q - of_int f
      in if d < 1 / 2 then f else if 1 / 2 < d then f + 1 else if even f then f else f + 1)"

definition roundDoublePos :: "rat \<Rightarrow> number" where
  "roundDoublePos q =
     (let ulp = pow2 (binExponent q - 52);
          v = of_int (roundTiesToEven (q / ulp)) * ulp
      in if pow2 1024 \<le> v then PosInf else Fin v)"

definition negate :: "number \<Rightarrow> number" where
  "negate x = (case x of NaN \<Rightarrow> NaN | NegInf \<Rightarrow> PosInf | Fin q \<Rightarrow> Fin (- q) | PosInf \<Rightarrow> NegInf)"

definition roundDouble :: "rat \<Rightarrow> number" where
  "roundDouble q =
     (if q = 0 then Fin 0
      else if 0 < q then roundDoublePos q
      else negate (roundDoublePos (- q)))"

text \<open>The comparisons \<^verbatim>\<open><\<close>, \<^verbatim>\<open>>\<close>, \<^verbatim>\<open>>=\<close>, \<^verbatim>\<open>===\<close> on numbers: false as soon as one side is NaN.\<close>

fun lt_num :: "number \<Rightarrow> number \<Rightarrow> bool" where
  "lt_num NaN y = False"
| "lt_num x NaN = False"
| "lt_num PosInf y = False"
| "lt_num x NegInf = False"
| "lt_num NegInf y = True"
| "lt_num x PosInf = True"
| "lt_num (Fin a) (Fin b) = (a < b)"

fun strictEquals :: "number \<Rightarrow> number \<Rightarrow> bool" where
  "strictEquals NaN y = False"
| "strictEquals x NaN = False"
| "strictEquals x y = (x = y)"

definition gt_num :: "number \<Rightarrow> number \<Rightarrow> bool" where
  "gt_num x y = lt_num y x"

definition ge_num :: "number \<Rightarrow> number \<Rightarrow> bool" where
  "ge_num x y = (\<not> isNaN x \<and> \<not> isNaN y \<and> \<not> lt_num x y)"

text \<open>The product \<^verbatim>\<open>x * y\<close>.\<close>

definition signOf :: "number \<Rightarrow> int" where
  "signOf x = (case x of NaN \<Rightarrow> 0 | NegInf \<Rightarrow> - 1 | Fin q \<Rightarrow> sgn \<lfloor>sgn q\<rfloor> | PosInf \<Rightarrow> 1)"

definition times_num :: "number \<Rightarrow> number \<Rightarrow> number" where
  "times_num x y =
     (case (x, y) of
        (Fin a, Fin b) \<Rightarrow> roundDouble (a * b)
      | _ \<Rightarrow> if isNaN x \<or> isNaN y \<or> signOf x * signOf y = 0 then NaN
             else if 0 < signOf x * signOf y then PosInf else NegInf)"

definition lit_0_9 :: number where
  \<comment> \<open>the literal \<^verbatim>\<open>0.9\<close>\<close>
  "lit_0_9 = roundDouble (9 / 10)"

subsection \<open>Texts\<close>

text \<open>
  A text is a list of characters, read as the code units \<open>U+0000\<close> to \<open>U+00FF\<close>. White
  space is all the white space and line ends that \<^verbatim>\<open>trim\<close> and \<^verbatim>\<open>parseFloat\<close> strip in this
  range. Case conversion is that of the letters A to Z: the source converts a text only to
  look for ASCII tokens in it or to compare it with one, and no other character converts
  to a letter of these tokens, so each such test has the outcome it has in the source.
\<close>

definition upper_letters :: string where
  "upper_letters = ''ABCDEFGHIJKLMNOPQRSTUVWXYZ''"

definition lower_letters :: string where
  "lower_letters = ''abcdefghijklmnopqrstuvwxyz''"

definition toLowerChar :: "char \<Rightarrow> char" where
  "toLowerChar c = (case map_of (zip upper_letters lower_letters) c of Some d \<Rightarrow> d | None \<Rightarrow> c)"

definition toUpperChar :: "char \<Rightarrow> char" where
  "toUpperChar c = (case map_of (zip lower_letters upper_letters) c of Some d \<Rightarrow> d | None \<Rightarrow> c)"

definition toLowerCase :: "string \<Rightarrow> string" where
  "toLowerCase s = map toLowerChar s"

definition toUpperCase :: "string \<Rightarrow> string" where
  "toUpperCase s = map toUpperChar s"

definition isWhiteSpace :: "char \<Rightarrow> bool" where
  \<comment> \<open>tab, line feed, vertical tab, form feed, carriage return, space, no-break space\<close>
  "isWhiteSpace c =
     (c \<in> set [CHR 0x09, CHR 0x0A, CHR 0x0B, CHR 0x0C, CHR 0x0D, CHR '' '', CHR 0xA0])"

definition trimStart :: "string \<Rightarrow> string" where
  "trimStart s = dropWhile isWhiteSpace s"

definition trim :: "string \<Rightarrow> string" where
  "trim s = rev (dropWhile isWhiteSpace (rev (dropWhile isWhiteSpace s)))"

text \<open>\<^verbatim>\<open>s.includes(t)\<close>: \<open>t\<close> occurs in \<open>s\<close> as a block.\<close>

fun includes_text :: "string \<Rightarrow> string \<Rightarrow> bool" where
  "includes_text [] t = (t = [])"
| "includes_text (c # s) t = (prefix t (c # s) \<or> includes_text s t)"

text \<open>\<^verbatim>\<open>s.replace(p, r)\<close> with a text pattern: only the first occurrence of \<open>p\<close> is replaced.\<close>

fun replace :: "string \<Rightarrow> string \<Rightarrow> string \<Rightarrow> string" where
  "replace [] p r = (if p = [] then r else [])"
| "replace (c # s) p r =
     (if prefix p (c # s) then r @ drop (length p) (c # s) else c # replace s p r)"

subsection \<open>parseFloat\<close>

text \<open>
  \<^verbatim>\<open>parseFloat\<close> skips leading white space and reads the longest prefix that is a decimal
  literal: an optional sign, then \<^verbatim>\<open>Infinity\<close>, or digits with an optional fraction, or a
  point followed by digits; then an exponent, if the \<^verbatim>\<open>e\<close> is followed by an optional sign
  and at least one digit. What follows the literal is ignored. Without such a prefix the
  result is NaN.
\<close>

definition isDigit :: "char \<Rightarrow> bool" where
  "isDigit c = (c \<in> set ''0123456789'')"

definition digitValue :: "char \<Rightarrow> nat" where
  "digitValue c =
     (case map_of (zip ''0123456789'' [0, 1, 2, 3, 4, 5, 6, 7, 8, 9]) c of
        Some d \<Rightarrow> d | None \<Rightarrow> 0)"

definition digitsValue :: "string \<Rightarrow> nat" where
  "digitsValue ds = foldl (\<lambda>n c. 10 * n + digitValue c) 0 ds"

definition exponentPart :: "string \<Rightarrow> int" where
  "exponentPart s =
     (case s of
        [] \<Rightarrow> 0
      | c # s1 \<Rightarrow>
          if c = CHR ''e'' \<or> c = CHR ''E'' then
            (case s1 of
               [] \<Rightarrow> 0
             | d # s2 \<Rightarrow>
                 if d = CHR ''-'' then - int (digitsValue (takeWhile isDigit s2))
                 else if d = CHR ''+'' then int (digitsValue (takeWhile isDigit s2))
                 else int (digitsValue (takeWhile isDigit s1)))
          else 0)"

definition unsignedLiteral :: "string \<Rightarrow> rat option" where
  \<comment> \<open>the exact value of the longest unsigned decimal literal at the start of \<open>s\<close>\<close>
  "unsignedLiteral s =
     (let ip = takeWhile isDigit s; r1 = dropWhile isDigit s;
          hasPoint = (r1 \<noteq> [] \<and> hd r1 = CHR ''.'');
          fp = (if hasPoint then takeWhile isDigit (tl r1) else []);
          r2 = (if hasPoint then dropWhile isDigit (tl r1) else r1)
      in if ip = [] \<and> fp = [] then None
         else Some ((of_nat (digitsValue ip) + of_nat (digitsValue fp) * pow10 (- int (length fp)))
                    * pow10 (exponentPart r2)))"

definition unsignedNumber :: "string \<Rightarrow> number" where
  "unsignedNumber s =
     (if prefix ''Infinity'' s then PosInf
      else case unsignedLiteral s of None \<Rightarrow> NaN | Some q \<Rightarrow> roundDouble q)"

definition parseFloat :: "string \<Rightarrow> number" where
  "parseFloat s =
     (case trimStart s of
        [] \<Rightarrow> NaN
      | c # t \<Rightarrow>
          if c = CHR ''-'' then negate (unsignedNumber t)
          else if c = CHR ''+'' then unsignedNumber t
          else unsignedNumber (c # t))"

subsection \<open>Raw values and parseValue\<close>

text \<open>
  A cell of the data set is \<^verbatim>\<open>undefined\<close>, \<^verbatim>\<open>null\<close>, a text, or a number. A number is kept
  as the text \<^verbatim>\<open>String\<close> gives for it (\<open>Num ''95''\<close>, \<open>Num ''12.5''\<close>, \<open>Num ''NaN''\<close>):
  the source reads a number through \<^verbatim>\<open>String(value)\<close>, and otherwise only tests whether
  it is truthy, which fails for \<open>0\<close> and NaN alone.
\<close>

datatype raw = Undefined | Null | Str string | Num string

definition ToString :: "raw \<Rightarrow> string" where
  "ToString v = (case v of Undefined \<Rightarrow> ''undefined'' | Null \<Rightarrow> ''null'' | Str s \<Rightarrow> s | Num s \<Rightarrow> s)"

definition truthy :: "raw \<Rightarrow> bool" where
  "truthy v =
     (case v of Undefined \<Rightarrow> False | Null \<Rightarrow> False | Str s \<Rightarrow> s \<noteq> []
      | Num s \<Rightarrow> s \<noteq> ''0'' \<and> s \<noteq> ''NaN'')"

definition parseValue :: "raw \<Rightarrow> number" where
  "parseValue v =
     (if v = Undefined \<or> v = Null then NaN
      else let strValue = ToString v in
        if toLowerCase strValue = ''na'' \<or> trim strValue = [] \<or>
           includes_text (toLowerCase strValue) ''andamento'' \<or>
           includes_text (toLowerCase strValue) ''apurando'' \<or>
           includes_text (toLowerCase strValue) ''mensurado'' \<or>
           toLowerCase strValue = ''s/n''
        then NaN
        else let cleanedValue = trim (replace (replace (replace strValue ''%'' []) '','' ''.'') [CHR 0x27] [])
             in parseFloat cleanedValue)"

subsection \<open>Goals and getStatus\<close>

text \<open>
  The three object types. \<open>YearlyGoalData\<close> and the records of the raw data set are
  declared in \<^verbatim>\<open>panel-data\<close>; their fields are those the source reads. An absent
  property is \<open>Undefined\<close> for a cell, \<open>None\<close> for the object \<^verbatim>\<open>quadrimestres\<close> and for a
  key of an object used as a dictionary. Identifiers are natural numbers.
\<close>

record YearlyGoalData =
  esperado :: raw
  resultado :: raw
  quadrimestres :: "(string \<rightharpoonup> raw) option"

record GoalRecord =
  id_no :: nat
  title :: string
  polaridade :: string
  esperado :: raw
  resultado :: raw
  quadrimestres :: "(string \<rightharpoonup> raw) option"

record Goal =
  id_no :: nat
  title :: string
  polaridade :: string
  diretriz :: string
  objetivo :: string
  yearly_data :: "string \<rightharpoonup> YearlyGoalData"

record StatusInfo =
  text_label :: string
  color :: string

text \<open>The labels and colours. The labels are written in ASCII, without the accents they have in the source.\<close>

abbreviation Superada :: string where "Superada \<equiv> ''Superada''"
abbreviation Alcancada :: string where "Alcancada \<equiv> ''Alcancada''"
abbreviation Parcialmente_Alcancada :: string where "Parcialmente_Alcancada \<equiv> ''Parcialmente Alcancada''"
abbreviation Nao_Alcancada :: string where "Nao_Alcancada \<equiv> ''Nao Alcancada''"
abbreviation Em_Andamento :: string where "Em_Andamento \<equiv> ''Em Andamento''"
abbreviation Nao_Aplicavel :: string where "Nao_Aplicavel \<equiv> ''Nao Aplicavel''"
abbreviation Outro :: string where "Outro \<equiv> ''Outro''"

definition getStatus :: "Goal \<Rightarrow> raw \<Rightarrow> raw \<Rightarrow> StatusInfo" where
  "getStatus goal result expected =
     (let resultadoVal = toLowerCase (ToString result) in
      if result = Undefined \<or> result = Null \<or> includes_text resultadoVal ''andamento'' \<or>
         includes_text resultadoVal ''apurando'' \<or> resultadoVal = ''s/n'' \<or> resultadoVal = ''na'' \<or>
         includes_text resultadoVal ''mensurado''
      then \<lparr>text_label = Em_Andamento, color = ''yellow''\<rparr>
      else
        let esperadoNum = parseValue expected;
            resultadoNum = parseValue result
        in if isNaN esperadoNum \<or> isNaN resultadoNum
           then \<lparr>text_label = Nao_Aplicavel, color = ''gray''\<rparr>
           else
             let polaridade = toUpperCase (Goal.polaridade goal)
             in if polaridade = ''MENOR'' then
                  (if lt_num resultadoNum esperadoNum then \<lparr>text_label = Superada, color = ''green''\<rparr>
                   else if strictEquals resultadoNum esperadoNum then \<lparr>text_label = Alcancada, color = ''green''\<rparr>
                   else \<lparr>text_label = Nao_Alcancada, color = ''red''\<rparr>)
                else
                  (if gt_num resultadoNum esperadoNum then \<lparr>text_label = Superada, color = ''green''\<rparr>
                   else if ge_num resultadoNum esperadoNum then \<lparr>text_label = Alcancada, color = ''green''\<rparr>
                   else if ge_num resultadoNum (times_num esperadoNum lit_0_9)
                     then \<lparr>text_label = Parcialmente_Alcancada, color = ''orange''\<rparr>
                   else \<lparr>text_label = Nao_Alcancada, color = ''red''\<rparr>))"

text \<open>
  The two branches of the polarity test (lines 171 to 180), as functions of the two parsed
  numbers \<^verbatim>\<open>resultadoNum\<close> and \<^verbatim>\<open>esperadoNum\<close>. The third tier of the second one compares
  with the product \<^verbatim>\<open>esperadoNum * 0.9\<close> as the source computes it, in binary64.
\<close>

definition lowerIsBetterTiers :: "number \<Rightarrow> number \<Rightarrow> StatusInfo" where
  "lowerIsBetterTiers r e =
     (if lt_num r e then \<lparr>text_label = Superada, color = ''green''\<rparr>
      else if strictEquals r e then \<lparr>text_label = Alcancada, color = ''green''\<rparr>
      else \<lparr>text_label = Nao_Alcancada, color = ''red''\<rparr>)"

definition higherIsBetterTiers :: "number \<Rightarrow> number \<Rightarrow> StatusInfo" where
  "higherIsBetterTiers r e =
     (if gt_num r e then \<lparr>text_label = Superada, color = ''green''\<rparr>
      else if ge_num r e then \<lparr>text_label = Alcancada, color = ''green''\<rparr>
      else if ge_num r (times_num e lit_0_9)
        then \<lparr>text_label = Parcialmente_Alcancada, color = ''orange''\<rparr>
      else \<lparr>text_label = Nao_Alcancada, color = ''red''\<rparr>)"

definition getSimplifiedStatus :: "string \<Rightarrow> string" where
  "getSimplifiedStatus detailedStatusText =
     (if detailedStatusText = Superada \<or> detailedStatusText = Alcancada then Alcancada
      else if detailedStatusText = Parcialmente_Alcancada \<or> detailedStatusText = Nao_Alcancada
        then Nao_Alcancada
      else Outro)"

subsection \<open>The counting loop of renderAllYearCharts\<close>

text \<open>
  For one \<open>year\<close> of its list, \<^verbatim>\<open>renderAllYearCharts\<close> narrows the goals it is given by the
  status filter, unless that is \<^verbatim>\<open>todos\<close>, and counts the simplified statuses of what is
  left into an object of three counters. The result read for a goal is the annual one, or
  the one of the selected period with the annual one where that is missing.
\<close>

definition selectedResult :: "string \<Rightarrow> YearlyGoalData \<Rightarrow> raw" where
  "selectedResult selectedQuad yearData =
     (let result =
            (if selectedQuad = ''anual'' then YearlyGoalData.resultado yearData
             else case YearlyGoalData.quadrimestres yearData of
                    Some quads \<Rightarrow> (case quads selectedQuad of Some v \<Rightarrow> v | None \<Rightarrow> Undefined)
                  | None \<Rightarrow> YearlyGoalData.resultado yearData)
      in if result = Undefined \<and> selectedQuad \<noteq> ''anual'' then YearlyGoalData.resultado yearData
         else result)"

definition filteredForChart :: "string \<Rightarrow> string \<Rightarrow> string \<Rightarrow> Goal list \<Rightarrow> Goal list" where
  "filteredForChart selectedQuad selectedStatusFilter year baseFilteredData =
     (if selectedStatusFilter \<noteq> ''todos'' then
        filter (\<lambda>goal.
          case yearly_data goal year of
            None \<Rightarrow> False
          | Some yearData \<Rightarrow>
              getSimplifiedStatus (text_label (getStatus goal (selectedResult selectedQuad yearData)
                  (YearlyGoalData.esperado yearData))) = selectedStatusFilter)
          baseFilteredData
      else baseFilteredData)"

record StatusCounts =
  count_Alcancada :: nat
  count_Nao_Alcancada :: nat
  count_Outro :: nat

definition increment :: "string \<Rightarrow> StatusCounts \<Rightarrow> StatusCounts" where
  \<comment> \<open>\<^verbatim>\<open>if (statusCounts[key] !== undefined) statusCounts[key]++\<close>\<close>
  "increment key statusCounts =
     (if key = Alcancada then statusCounts\<lparr>count_Alcancada := count_Alcancada statusCounts + 1\<rparr>
      else if key = Nao_Alcancada
        then statusCounts\<lparr>count_Nao_Alcancada := count_Nao_Alcancada statusCounts + 1\<rparr>
      else if key = Outro then statusCounts\<lparr>count_Outro := count_Outro statusCounts + 1\<rparr>
      else statusCounts)"

definition countGoal :: "string \<Rightarrow> string \<Rightarrow> StatusCounts \<Rightarrow> Goal \<Rightarrow> StatusCounts" where
  "countGoal selectedQuad year statusCounts goal =
     (case yearly_data goal year of
        None \<Rightarrow> statusCounts
      | Some yearData \<Rightarrow>
          let result = selectedResult selectedQuad yearData;
              expected = YearlyGoalData.esperado yearData;
              simplifiedStatus = getSimplifiedStatus (text_label (getStatus goal result expected))
          in increment simplifiedStatus statusCounts)"

definition statusCounts :: "string \<Rightarrow> string \<Rightarrow> Goal list \<Rightarrow> StatusCounts" where
  "statusCounts selectedQuad year goals =
     foldl (countGoal selectedQuad year)
       \<lparr>count_Alcancada = 0, count_Nao_Alcancada = 0, count_Outro = 0\<rparr> goals"

definition chartCounts :: "string \<Rightarrow> string \<Rightarrow> string \<Rightarrow> Goal list \<Rightarrow> StatusCounts" where
  "chartCounts selectedQuad selectedStatusFilter year baseFilteredData =
     statusCounts selectedQuad year
       (filteredForChart selectedQuad selectedStatusFilter year baseFilteredData)"

definition renderAllYearCharts :: "string \<Rightarrow> string \<Rightarrow> Goal list \<Rightarrow> (string \<times> StatusCounts) list" where
  "renderAllYearCharts selectedQuad selectedStatusFilter baseFilteredData =
     map (\<lambda>year. (year, chartCounts selectedQuad selectedStatusFilter year baseFilteredData))
       [''2022'', ''2023'', ''2024'']"

subsection \<open>initializeData\<close>

text \<open>
  The raw data set is an object of objects: year, then directive, then objective, then
  a list of records. Each level is the list of its entries in the order \<^verbatim>\<open>for ... in\<close>
  visits them. \<^verbatim>\<open>masterData\<close> is the list of its entries in insertion order;
  \<^verbatim>\<open>Object.values\<close> lists an object whose keys are array indices (numbers below
  \<open>2^32 - 1\<close>) in ascending order of the keys. The two sets of directives and objectives
  that \<^verbatim>\<open>initializeData\<close> collects for the filter menus are left out.
\<close>

type_synonym RawDataSets = "(string \<times> (string \<times> (string \<times> GoalRecord list) list) list) list"

definition newGoal :: "string \<Rightarrow> string \<Rightarrow> GoalRecord \<Rightarrow> Goal" where
  "newGoal dir obj goalData =
     \<lparr>Goal.id_no = GoalRecord.id_no goalData,
      title = GoalRecord.title goalData,
      polaridade = GoalRecord.polaridade goalData,
      diretriz = dir,
      objetivo = obj,
      yearly_data = Map.empty\<rparr>"

definition firstPass :: "RawDataSets \<Rightarrow> (nat \<times> Goal) list \<Rightarrow> (nat \<times> Goal) list" where
  "firstPass dataSets masterData =
     foldl (\<lambda>m (year, byDiretriz).
       foldl (\<lambda>m (dir, byObjetivo).
         foldl (\<lambda>m (obj, goals).
           foldl (\<lambda>m goalData.
             if map_of m (GoalRecord.id_no goalData) = None
             then AList.update (GoalRecord.id_no goalData) (newGoal dir obj goalData) m
             else m) m goals) m byObjetivo) m byDiretriz) masterData dataSets"

definition yearRecord :: "GoalRecord \<Rightarrow> YearlyGoalData" where
  "yearRecord goalData =
     \<lparr>YearlyGoalData.esperado = GoalRecord.esperado goalData,
      resultado = GoalRecord.resultado goalData,
      quadrimestres = (case GoalRecord.quadrimestres goalData of
                         Some quads \<Rightarrow> Some quads | None \<Rightarrow> Some Map.empty)\<rparr>"

definition secondPass :: "RawDataSets \<Rightarrow> (nat \<times> Goal) list \<Rightarrow> (nat \<times> Goal) list" where
  "secondPass dataSets masterData =
     foldl (\<lambda>m (year, byDiretriz).
       foldl (\<lambda>m (dir, byObjetivo).
         foldl (\<lambda>m (obj, goals).
           foldl (\<lambda>m goalData.
             AList.map_entry (GoalRecord.id_no goalData)
               (\<lambda>goal. goal\<lparr>yearly_data := (yearly_data goal)(year \<mapsto> yearRecord goalData)\<rparr>) m)
             m goals) m byObjetivo) m byDiretriz) masterData dataSets"

definition objectValues :: "(nat \<times> 'a) list \<Rightarrow> 'a list" where
  "objectValues obj = map snd (sort_key fst obj)"

definition addPlaceholder2025 :: "Goal \<Rightarrow> Goal" where
  "addPlaceholder2025 goal =
     (if yearly_data goal ''2025'' = None then
        let finalYearData = yearly_data goal ''2024'';
            esperado2024 = (case finalYearData of
                              None \<Rightarrow> Undefined | Some d \<Rightarrow> YearlyGoalData.esperado d)
        in goal\<lparr>yearly_data := (yearly_data goal)(''2025'' \<mapsto>
             \<lparr>YearlyGoalData.esperado = (if truthy esperado2024 then esperado2024 else Str ''N/A''),
              resultado = Str ''S/N'',
              quadrimestres = Some [''1'' \<mapsto> Str ''S/N'', ''2'' \<mapsto> Str ''S/N'', ''3'' \<mapsto> Str ''S/N'']\<rparr>)\<rparr>
      else goal)"

definition initializeData :: "RawDataSets \<Rightarrow> Goal list" where
  "initializeData dataSets =
     map addPlaceholder2025 (objectValues (secondPass dataSets (firstPass dataSets [])))"

text \<open>The quadruples of a data set, in the order the nested loops visit them.\<close>

definition quadruples :: "RawDataSets \<Rightarrow> (string \<times> string \<times> string \<times> GoalRecord) list" where
  "quadruples dataSets =
     concat (map (\<lambda>(year, byDiretriz).
       concat (map (\<lambda>(dir, byObjetivo).
         concat (map (\<lambda>(obj, goals).
           map (\<lambda>goalData. (year, dir, obj, goalData)) goals) byObjetivo)) byDiretriz))
       dataSets)"


subsection \<open>Notions of the specification\<close>

text \<open>
  A goal is lower-is-better when its polarity is \<^verbatim>\<open>menor\<close> up to letter case. A raw result is
  a placeholder when it is absent or its text, up to letter case, contains one of the three
  tokens or is \<^verbatim>\<open>s/n\<close> or \<^verbatim>\<open>na\<close>.
\<close>

definition lowerIsBetter :: "Goal \<Rightarrow> bool" where
  "lowerIsBetter goal = (toLowerCase (Goal.polaridade goal) = ''menor'')"

definition isPlaceholder :: "raw \<Rightarrow> bool" where
  "isPlaceholder v =
     (v = Undefined \<or> v = Null \<or>
      includes_text (toLowerCase (ToString v)) ''andamento'' \<or>
      includes_text (toLowerCase (ToString v)) ''apurando'' \<or>
      includes_text (toLowerCase (ToString v)) ''mensurado'' \<or>
      toLowerCase (ToString v) = ''s/n'' \<or> toLowerCase (ToString v) = ''na'')"



subsection \<open>The size of a count\<close>

definition total :: "StatusCounts \<Rightarrow> nat" where
  "total c = count_Alcancada c + count_Nao_Alcancada c + count_Outro c"

definition hasYear :: "string \<Rightarrow> Goal \<Rightarrow> bool" where
  "hasYear year goal = (yearly_data goal year \<noteq> None)"

subsection \<open>Texts that are, or start with, a decimal literal\<close>

text \<open>
  \<open>cleanedText\<close> is the text \<^verbatim>\<open>parseValue\<close> hands to \<^verbatim>\<open>parseFloat\<close>. A text is a number
  representation when all of it is a signed decimal literal; it starts with a literal when,
  after an optional sign, it goes on with \<^verbatim>\<open>Infinity\<close>, a digit, or a point and a digit.
\<close>

definition cleanedText :: "raw \<Rightarrow> string" where
  "cleanedText v = trim (replace (replace (replace (ToString v) ''%'' []) '','' ''.'') [CHR 0x27] [])"

definition dropSign :: "string \<Rightarrow> string" where
  "dropSign s = (case s of [] \<Rightarrow> [] | c # t \<Rightarrow> if c = CHR ''-'' \<or> c = CHR ''+'' then t else c # t)"

definition isExponent :: "string \<Rightarrow> bool" where
  "isExponent s =
     (case s of
        [] \<Rightarrow> False
      | c # t \<Rightarrow> (c = CHR ''e'' \<or> c = CHR ''E'') \<and> dropSign t \<noteq> [] \<and> list_all isDigit (dropSign t))"

definition isDecimalLiteral :: "string \<Rightarrow> bool" where
  "isDecimalLiteral s =
     (let u = dropSign s;
          ip = takeWhile isDigit u; r1 = dropWhile isDigit u;
          hasPoint = (r1 \<noteq> [] \<and> hd r1 = CHR ''.'');
          fp = (if hasPoint then takeWhile isDigit (tl r1) else []);
          r2 = (if hasPoint then dropWhile isDigit (tl r1) else r1)
      in u = ''Infinity'' \<or> ((ip \<noteq> [] \<or> fp \<noteq> []) \<and> (r2 = [] \<or> isExponent r2)))"

definition startsWithLiteral :: "string \<Rightarrow> bool" where
  "startsWithLiteral s =
     (let u = dropSign s
      in prefix ''Infinity'' u \<or>
         (u \<noteq> [] \<and> (isDigit (hd u) \<or> (hd u = CHR ''.'' \<and> tl u \<noteq> [] \<and> isDigit (hd (tl u))))))"

subsection \<open>The two passes, one quadruple at a time\<close>

text \<open>
  What the body of each nest of loops does with one quadruple; the first quadruple of a
  data set that carries an identifier, and the last one that carries it in a given year;
  the fields of a goal that the first pass sets.
\<close>

definition registerGoal :: "(nat \<times> Goal) list \<Rightarrow> string \<times> string \<times> string \<times> GoalRecord \<Rightarrow> (nat \<times> Goal) list" where
  "registerGoal m q =
     (case q of (year, dir, obj, goalData) \<Rightarrow>
        if map_of m (GoalRecord.id_no goalData) = None
        then AList.update (GoalRecord.id_no goalData) (newGoal dir obj goalData) m
        else m)"

definition attachYear :: "(nat \<times> Goal) list \<Rightarrow> string \<times> string \<times> string \<times> GoalRecord \<Rightarrow> (nat \<times> Goal) list" where
  "attachYear m q =
     (case q of (year, dir, obj, goalData) \<Rightarrow>
        AList.map_entry (GoalRecord.id_no goalData)
          (\<lambda>goal. goal\<lparr>yearly_data := (yearly_data goal)(year \<mapsto> yearRecord goalData)\<rparr>) m)"

definition quadId :: "string \<times> string \<times> string \<times> GoalRecord \<Rightarrow> nat" where
  "quadId q = (case q of (year, dir, obj, goalData) \<Rightarrow> GoalRecord.id_no goalData)"

definition quadYear :: "string \<times> string \<times> string \<times> GoalRecord \<Rightarrow> string" where
  "quadYear q = (case q of (year, dir, obj, goalData) \<Rightarrow> year)"

definition firstQuadruple :: "nat \<Rightarrow> RawDataSets \<Rightarrow> (string \<times> string \<times> string \<times> GoalRecord) option" where
  "firstQuadruple i dataSets = find (\<lambda>q. quadId q = i) (quadruples dataSets)"

definition quadRecord :: "string \<times> string \<times> string \<times> GoalRecord \<Rightarrow> GoalRecord" where
  "quadRecord q = (case q of (year, dir, obj, goalData) \<Rightarrow> goalData)"

definition lastQuadruple :: "string \<Rightarrow> nat \<Rightarrow> RawDataSets \<Rightarrow> (string \<times> string \<times> string \<times> GoalRecord) option" where
  "lastQuadruple year i dataSets =
     find (\<lambda>q. quadYear q = year \<and> quadId q = i) (rev (quadruples dataSets))"

definition header :: "Goal \<Rightarrow> nat \<times> string \<times> string \<times> string \<times> string" where
  "header goal =
     (Goal.id_no goal, Goal.title goal, Goal.polaridade goal, diretriz goal, objetivo goal)"

subsection \<open>Sample data\<close>

definition goal_maior :: Goal where
  "goal_maior = \<lparr>Goal.id_no = 1, title = ''Cobertura vacinal'', polaridade = ''maior'',
     diretriz = ''D1'', objetivo = ''O1'', yearly_data = Map.empty\<rparr>"

definition goal_menor :: Goal where
  "goal_menor = \<lparr>Goal.id_no = 2, title = ''Obitos maternos'', polaridade = ''Menor'',
     diretriz = ''D2'', objetivo = ''O2'', yearly_data = Map.empty\<rparr>"

definition record_2023 :: GoalRecord where
  "record_2023 = \<lparr>GoalRecord.id_no = 7, title = ''Cobertura vacinal'', polaridade = ''maior'',
     esperado = Str ''95%'', resultado = Str ''90%'', quadrimestres = None\<rparr>"

definition dataSets_2023 :: RawDataSets where
  "dataSets_2023 = [(''2023'', [(''D1'', [(''O1'', [record_2023])])])]"

definition record_2024_a :: GoalRecord where
  "record_2024_a = \<lparr>GoalRecord.id_no = 7, title = ''Cobertura (revisada)'', polaridade = ''menor'',
     esperado = Str ''97%'', resultado = Str ''em andamento'', quadrimestres = Some [''1'' \<mapsto> Str ''91%'']\<rparr>"

definition record_2024_b :: GoalRecord where
  "record_2024_b = \<lparr>GoalRecord.id_no = 3, title = ''Obitos maternos'', polaridade = ''menor'',
     esperado = Str [], resultado = Num ''2'', quadrimestres = None\<rparr>"

definition dataSets_two_years :: RawDataSets where
  "dataSets_two_years =
     [(''2023'', [(''D1'', [(''O1'', [record_2023])])]),
      (''2024'', [(''D2'', [(''O2'', [record_2024_a, record_2024_b])])])]"

section \<open>Properties\<close>

subsection \<open>Letter case\<close>

lemma lower_table: "map toLowerChar upper_letters = lower_letters"
  by (simp add: toLowerChar_def upper_letters_def lower_letters_def)

lemma upper_table: "map toUpperChar lower_letters = upper_letters"
  by (simp add: toUpperChar_def upper_letters_def lower_letters_def)

lemma upper_fixed: "map toUpperChar upper_letters = upper_letters"
  by (simp add: toUpperChar_def upper_letters_def lower_letters_def)

lemma lower_fixed: "map toLowerChar lower_letters = lower_letters"
  by (simp add: toLowerChar_def upper_letters_def lower_letters_def)

lemma length_letters: "length upper_letters = length lower_letters"
  by (simp add: upper_letters_def lower_letters_def)

lemma toLowerChar_not_upper: "c \<notin> set upper_letters \<Longrightarrow> toLowerChar c = c"
proof -
  assume "c \<notin> set upper_letters"
  then have "map_of (zip upper_letters lower_letters) c = None"
    using length_letters by simp
  then show ?thesis by (simp add: toLowerChar_def)
qed

lemma toUpperChar_not_lower: "c \<notin> set lower_letters \<Longrightarrow> toUpperChar c = c"
proof -
  assume "c \<notin> set lower_letters"
  then have "map_of (zip lower_letters upper_letters) c = None"
    using length_letters by simp
  then show ?thesis by (simp add: toUpperChar_def)
qed

lemma toUpperChar_toLowerChar: "toUpperChar (toLowerChar c) = toUpperChar c"
proof (cases "c \<in> set upper_letters")
  case True
  have "map (toUpperChar \<circ> toLowerChar) upper_letters = map toUpperChar upper_letters"
    by (simp only: map_map [symmetric] lower_table upper_table upper_fixed)
  with True show ?thesis by (simp only: map_eq_conv comp_apply)
next
  case False
  then show ?thesis by (simp add: toLowerChar_not_upper)
qed

lemma toLowerChar_toUpperChar: "toLowerChar (toUpperChar c) = toLowerChar c"
proof (cases "c \<in> set lower_letters")
  case True
  have "map (toLowerChar \<circ> toUpperChar) lower_letters = map toLowerChar lower_letters"
    by (simp only: map_map [symmetric] lower_table upper_table lower_fixed)
  with True show ?thesis by (simp only: map_eq_conv comp_apply)
next
  case False
  then show ?thesis by (simp add: toUpperChar_not_lower)
qed

lemma toUpperCase_toLowerCase: "toUpperCase (toLowerCase s) = toUpperCase s"
  by (simp add: toUpperCase_def toLowerCase_def toUpperChar_toLowerChar)

lemma toLowerCase_toUpperCase: "toLowerCase (toUpperCase s) = toLowerCase s"
  by (simp add: toUpperCase_def toLowerCase_def toLowerChar_toUpperChar)

lemma toUpperCase_menor: "toUpperCase ''menor'' = ''MENOR''"
  by (simp add: toUpperCase_def toUpperChar_def upper_letters_def lower_letters_def)

lemma toLowerCase_MENOR: "toLowerCase ''MENOR'' = ''menor''"
  by (simp add: toLowerCase_def toLowerChar_def upper_letters_def lower_letters_def)

lemma MENOR_iff_menor: "toUpperCase p = ''MENOR'' \<longleftrightarrow> toLowerCase p = ''menor''"
proof
  assume "toUpperCase p = ''MENOR''"
  then have "toLowerCase (toUpperCase p) = toLowerCase ''MENOR''" by (rule arg_cong)
  then show "toLowerCase p = ''menor''"
    by (simp only: toLowerCase_toUpperCase toLowerCase_MENOR)
next
  assume "toLowerCase p = ''menor''"
  then have "toUpperCase (toLowerCase p) = toUpperCase ''menor''" by (rule arg_cong)
  then show "toUpperCase p = ''MENOR''"
    by (simp only: toUpperCase_toLowerCase toUpperCase_menor)
qed

lemma same_case_same_upper:
  "toLowerCase p = toLowerCase q \<Longrightarrow> toUpperCase p = toUpperCase q"
  by (metis toUpperCase_toLowerCase)

subsection \<open>Evaluation\<close>

lemma floor_rat_numeral_div: "\<lfloor>(numeral a :: rat) / numeral b\<rfloor> = numeral a div numeral b"
  by (metis floor_divide_of_int_eq of_int_numeral)

lemmas number_eval = roundDouble_def roundDoublePos_def roundTiesToEven_def pow2_def pow10_def
  binExponent_def negate_def times_num_def lit_0_9_def isNaN_def signOf_def Let_def
  gt_num_def ge_num_def floor_rat_numeral_div

lemmas text_eval = toLowerCase_def toLowerChar_def toUpperCase_def toUpperChar_def upper_letters_def
  lower_letters_def trim_def trimStart_def isWhiteSpace_def ToString_def

lemmas parse_eval = parseValue_def parseFloat_def unsignedNumber_def unsignedLiteral_def
  exponentPart_def digitsValue_def digitValue_def isDigit_def

lemma parse_100: "parseValue (Str ''100'') = Fin 100"
  by (simp add: parse_eval text_eval number_eval)

lemma parse_50: "parseValue (Str ''50'') = Fin 50"
  by (simp add: parse_eval text_eval number_eval)



lemma goal_menor_lower: "lowerIsBetter goal_menor"
  by (simp add: lowerIsBetter_def goal_menor_def text_eval)

subsection \<open>The decision sequence of getStatus\<close>

lemma getStatus_placeholder:
  "isPlaceholder result \<Longrightarrow>
   getStatus goal result expected = \<lparr>text_label = Em_Andamento, color = ''yellow''\<rparr>"
  by (auto simp: getStatus_def isPlaceholder_def Let_def)

lemma parseValue_placeholder: "isPlaceholder v \<Longrightarrow> parseValue v = NaN"
  by (auto simp: parseValue_def isPlaceholder_def Let_def)

lemma getStatus_not_placeholder:
  "\<not> isPlaceholder result \<Longrightarrow>
   getStatus goal result expected =
     (if isNaN (parseValue expected) \<or> isNaN (parseValue result)
      then \<lparr>text_label = Nao_Aplicavel, color = ''gray''\<rparr>
      else if toUpperCase (Goal.polaridade goal) = ''MENOR''
        then lowerIsBetterTiers (parseValue result) (parseValue expected)
      else higherIsBetterTiers (parseValue result) (parseValue expected))"
  by (simp add: getStatus_def isPlaceholder_def Let_def lowerIsBetterTiers_def higherIsBetterTiers_def)

lemma getStatus_cases:
  assumes "parseValue expected \<noteq> NaN" and "parseValue result \<noteq> NaN"
  shows "getStatus goal result expected =
     (if lowerIsBetter goal then lowerIsBetterTiers (parseValue result) (parseValue expected)
      else higherIsBetterTiers (parseValue result) (parseValue expected))"
proof -
  have "\<not> isPlaceholder result"
    using assms(2) parseValue_placeholder by blast
  then show ?thesis
    using assms by (simp add: getStatus_not_placeholder isNaN_def lowerIsBetter_def MENOR_iff_menor)
qed





text \<open>
  C2. For a lower-is-better goal and a result and an expected value that both parse to
  numbers, the classification is Superada when the result is less than the expected
  value, Alcancada when the two are equal, and Nao Alcancada otherwise; it is never
  Parcialmente Alcancada. With expected 50, the results 49, 50 and 51 give Superada,
  Alcancada and Nao Alcancada.
\<close>

theorem lower_is_better_tiers:
  assumes "lowerIsBetter goal"
  shows "(\<forall>result expected. parseValue expected \<noteq> NaN \<and> parseValue result \<noteq> NaN \<longrightarrow>
            getStatus goal result expected =
              lowerIsBetterTiers (parseValue result) (parseValue expected)) \<and>
         (\<forall>result expected. text_label (getStatus goal result expected) \<noteq> Parcialmente_Alcancada) \<and>
         getStatus goal (Str ''49'') (Str ''50'') = \<lparr>text_label = Superada, color = ''green''\<rparr> \<and>
         getStatus goal (Str ''50'') (Str ''50'') = \<lparr>text_label = Alcancada, color = ''green''\<rparr> \<and>
         getStatus goal (Str ''51'') (Str ''50'') = \<lparr>text_label = Nao_Alcancada, color = ''red''\<rparr>"
proof -
  have general: "getStatus goal result expected =
      lowerIsBetterTiers (parseValue result) (parseValue expected)"
    if "parseValue expected \<noteq> NaN" and "parseValue result \<noteq> NaN" for result expected
    using getStatus_cases [OF that] assms by simp
  have upper: "toUpperCase (Goal.polaridade goal) = ''MENOR''"
    using assms by (simp add: lowerIsBetter_def MENOR_iff_menor)
  have no_partial: "text_label (getStatus goal result expected) \<noteq> Parcialmente_Alcancada"
    for result expected
  proof (cases "isPlaceholder result")
    case True
    then show ?thesis by (simp add: getStatus_placeholder)
  next
    case False
    then show ?thesis
      by (simp add: getStatus_not_placeholder upper lowerIsBetterTiers_def)
  qed
  have r49: "parseValue (Str ''49'') = Fin 49"
    by (simp add: parse_eval text_eval number_eval)
  have r51: "parseValue (Str ''51'') = Fin 51"
    by (simp add: parse_eval text_eval number_eval)
  have "getStatus goal (Str ''49'') (Str ''50'') = \<lparr>text_label = Superada, color = ''green''\<rparr>"
    by (simp add: general parse_50 r49 lowerIsBetterTiers_def)
  moreover have "getStatus goal (Str ''50'') (Str ''50'') = \<lparr>text_label = Alcancada, color = ''green''\<rparr>"
    by (simp add: general parse_50 lowerIsBetterTiers_def)
  moreover have "getStatus goal (Str ''51'') (Str ''50'') = \<lparr>text_label = Nao_Alcancada, color = ''red''\<rparr>"
    by (simp add: general parse_50 r51 lowerIsBetterTiers_def)
  ultimately show ?thesis using general no_partial by blast
qed

theorem lower_is_better_tiers_witness:
  "lowerIsBetter goal_menor \<and> parseValue (Num ''50'') \<noteq> NaN \<and> parseValue (Str ''45,5%'') \<noteq> NaN \<and>
   getStatus goal_menor (Str ''45,5%'') (Num ''50'') = \<lparr>text_label = Superada, color = ''green''\<rparr> \<and>
   getStatus goal_menor (Str ''51'') (Str ''50'') = \<lparr>text_label = Nao_Alcancada, color = ''red''\<rparr>"
proof -
  have e: "parseValue (Num ''50'') = Fin 50"
    by (simp add: parse_eval text_eval number_eval)
  have r: "parseValue (Str ''45,5%'') = Fin (91 / 2)"
    by (simp add: parse_eval text_eval number_eval)
  have "getStatus goal_menor (Str ''45,5%'') (Num ''50'') = lowerIsBetterTiers (Fin (91 / 2)) (Fin 50)"
    using lower_is_better_tiers [OF goal_menor_lower] e r by simp
  then show ?thesis
    using lower_is_better_tiers [OF goal_menor_lower] goal_menor_lower e r
    by (simp add: lowerIsBetterTiers_def)
qed

text \<open>
  C3. Whatever the goal and the expected value: a raw result that is undefined or null,
  or whose text contains, up to letter case, andamento, apurando or mensurado, or is, up
  to letter case, s/n or na, is classified Em Andamento (yellow). The numeric parse of
  the two values plays no part. In particular this is the classification of the result
  "apurando (80%)".
\<close>

theorem placeholder_result_is_em_andamento:
  "(result = Undefined \<or> result = Null \<or>
    includes_text (toLowerCase (ToString result)) ''andamento'' \<or>
    includes_text (toLowerCase (ToString result)) ''apurando'' \<or>
    includes_text (toLowerCase (ToString result)) ''mensurado'' \<or>
    toLowerCase (ToString result) = ''s/n'' \<or> toLowerCase (ToString result) = ''na'' \<longrightarrow>
      getStatus goal result expected = \<lparr>text_label = Em_Andamento, color = ''yellow''\<rparr>) \<and>
   getStatus goal (Str ''apurando (80%)'') expected = \<lparr>text_label = Em_Andamento, color = ''yellow''\<rparr>"
proof -
  have "getStatus goal result expected = \<lparr>text_label = Em_Andamento, color = ''yellow''\<rparr>"
    if "isPlaceholder result"
    using that by (rule getStatus_placeholder)
  moreover have "isPlaceholder (Str ''apurando (80%)'')"
    by (simp add: isPlaceholder_def text_eval)
  ultimately show ?thesis
    by (simp add: getStatus_placeholder isPlaceholder_def)
qed

theorem placeholder_result_is_em_andamento_witness:
  "toLowerCase (ToString (Str ''S/N'')) = ''s/n'' \<and>
   parseValue (Str ''100'') = Fin 100 \<and>
   getStatus goal_maior (Str ''S/N'') (Str ''100'') = \<lparr>text_label = Em_Andamento, color = ''yellow''\<rparr> \<and>
   includes_text (toLowerCase (ToString (Str ''Em Andamento - 80''))) ''andamento'' \<and>
   getStatus goal_menor (Str ''Em Andamento - 80'') (Num ''50'') =
     \<lparr>text_label = Em_Andamento, color = ''yellow''\<rparr> \<and>
   getStatus goal_menor Undefined (Num ''50'') = \<lparr>text_label = Em_Andamento, color = ''yellow''\<rparr>"
proof -
  have a: "toLowerCase (ToString (Str ''S/N'')) = ''s/n''"
    by (simp add: text_eval)
  have b: "includes_text (toLowerCase (ToString (Str ''Em Andamento - 80''))) ''andamento''"
    by (simp add: text_eval)
  have "getStatus goal_maior (Str ''S/N'') (Str ''100'') = \<lparr>text_label = Em_Andamento, color = ''yellow''\<rparr>"
    using placeholder_result_is_em_andamento [of "Str ''S/N''" goal_maior "Str ''100''"] a
    by (simp only:) simp
  moreover have "getStatus goal_menor (Str ''Em Andamento - 80'') (Num ''50'') =
      \<lparr>text_label = Em_Andamento, color = ''yellow''\<rparr>"
    using placeholder_result_is_em_andamento [of "Str ''Em Andamento - 80''" goal_menor "Num ''50''"] b
    by (simp only:) simp
  moreover have "getStatus goal_menor Undefined (Num ''50'') =
      \<lparr>text_label = Em_Andamento, color = ''yellow''\<rparr>"
    using placeholder_result_is_em_andamento [of Undefined goal_menor "Num ''50''"]
    by simp
  ultimately show ?thesis
    using a b parse_100 by simp
qed

subsection \<open>White space\<close>

lemma includes_text_mem: "includes_text s t \<Longrightarrow> c \<in> set t \<Longrightarrow> c \<in> set s"
proof (induction s)
  case Nil
  then show ?case by simp
next
  case (Cons a s)
  from Cons.prems(1) have "prefix t (a # s) \<or> includes_text s t" by simp
  then show ?case
  proof
    assume "prefix t (a # s)"
    then have "set t \<subseteq> set (a # s)" by (rule set_mono_prefix)
    with Cons.prems(2) show ?thesis by blast
  next
    assume "includes_text s t"
    with Cons show ?thesis by simp
  qed
qed

lemma whitespace_not_upper: "isWhiteSpace c \<Longrightarrow> c \<notin> set upper_letters"
  by (auto simp: isWhiteSpace_def upper_letters_def)

lemma toLowerCase_whitespace:
  assumes "\<forall>c \<in> set s. isWhiteSpace c"
  shows "toLowerCase s = s"
  unfolding toLowerCase_def
  by (rule map_idI) (simp add: assms toLowerChar_not_upper whitespace_not_upper)

lemma trim_whitespace:
  assumes "\<forall>c \<in> set s. isWhiteSpace c"
  shows "trim s = []"
proof -
  have empty: "dropWhile isWhiteSpace s = []"
    using assms by (induction s) simp_all
  show ?thesis
    unfolding trim_def empty by simp
qed

lemma whitespace_not_placeholder:
  assumes "\<forall>c \<in> set s. isWhiteSpace c"
  shows "\<not> isPlaceholder (Str s)"
proof -
  have "\<not> isWhiteSpace (CHR ''n'')"
    by (simp add: isWhiteSpace_def)
  then have n: "CHR ''n'' \<notin> set s"
    using assms by blast
  have "\<not> includes_text s ''andamento''"
    using n includes_text_mem [of s "''andamento''" "CHR ''n''"] by auto
  moreover have "\<not> includes_text s ''apurando''"
    using n includes_text_mem [of s "''apurando''" "CHR ''n''"] by auto
  moreover have "\<not> includes_text s ''mensurado''"
    using n includes_text_mem [of s "''mensurado''" "CHR ''n''"] by auto
  moreover have "s \<noteq> ''s/n''" "s \<noteq> ''na''"
    using n by auto
  ultimately show ?thesis
    by (simp add: isPlaceholder_def ToString_def toLowerCase_whitespace [OF assms])
qed

lemma parseValue_whitespace: "\<forall>c \<in> set s. isWhiteSpace c \<Longrightarrow> parseValue (Str s) = NaN"
  by (simp add: parseValue_def ToString_def trim_whitespace)

text \<open>
  C9. Whatever the goal and the expected value: a result that is the empty text, or a
  text of white space only, is classified Nao Aplicavel (gray), not Em Andamento. It is
  no placeholder, and it parses to NaN.
\<close>

theorem blank_result_is_nao_aplicavel:
  assumes "\<forall>c \<in> set s. isWhiteSpace c"
  shows "getStatus goal (Str s) expected = \<lparr>text_label = Nao_Aplicavel, color = ''gray''\<rparr> \<and>
         \<not> isPlaceholder (Str s) \<and> parseValue (Str s) = NaN"
  using assms
  by (simp add: getStatus_not_placeholder whitespace_not_placeholder parseValue_whitespace isNaN_def)

theorem blank_result_is_nao_aplicavel_witness:
  "getStatus goal_maior (Str []) (Str ''100'') = \<lparr>text_label = Nao_Aplicavel, color = ''gray''\<rparr> \<and>
   getStatus goal_menor (Str [CHR '' '', CHR 0x09, CHR '' '']) (Num ''50'') =
     \<lparr>text_label = Nao_Aplicavel, color = ''gray''\<rparr>"
  using blank_result_is_nao_aplicavel [of "[]" goal_maior "Str ''100''"]
    blank_result_is_nao_aplicavel [of "[CHR '' '', CHR 0x09, CHR '' '']" goal_menor "Num ''50''"]
  by (simp add: isWhiteSpace_def)

text \<open>
  C10. The classification is a function of its arguments, and of the goal it reads the
  polarity alone, up to letter case: two goals whose polarities are equal up to letter
  case get the same classification for the same result and expected value, whatever
  their other fields. The lower-is-better tiers are applied exactly when the polarity
  is menor up to letter case.
\<close>

theorem classification_reads_polarity_only:
  "(toLowerCase (Goal.polaridade goal1) = toLowerCase (Goal.polaridade goal2) \<longrightarrow>
      getStatus goal1 result expected = getStatus goal2 result expected) \<and>
   (Goal.polaridade goal1 = Goal.polaridade goal2 \<longrightarrow>
      getStatus goal1 result expected = getStatus goal2 result expected) \<and>
   (parseValue expected \<noteq> NaN \<and> parseValue result \<noteq> NaN \<longrightarrow>
      getStatus goal1 result expected =
        (if toLowerCase (Goal.polaridade goal1) = ''menor''
         then lowerIsBetterTiers (parseValue result) (parseValue expected)
         else higherIsBetterTiers (parseValue result) (parseValue expected))) \<and>
   (toUpperCase (Goal.polaridade goal1) = ''MENOR'' \<longleftrightarrow> toLowerCase (Goal.polaridade goal1) = ''menor'')"
proof -
  have same: "getStatus goal1 result expected = getStatus goal2 result expected"
    if "toLowerCase (Goal.polaridade goal1) = toLowerCase (Goal.polaridade goal2)"
  proof -
    have "toUpperCase (Goal.polaridade goal1) = toUpperCase (Goal.polaridade goal2)"
      using that by (rule same_case_same_upper)
    then show ?thesis
      unfolding getStatus_def by (simp only:)
  qed
  have "getStatus goal1 result expected =
        (if toLowerCase (Goal.polaridade goal1) = ''menor''
         then lowerIsBetterTiers (parseValue result) (parseValue expected)
         else higherIsBetterTiers (parseValue result) (parseValue expected))"
    if "parseValue expected \<noteq> NaN" and "parseValue result \<noteq> NaN"
    using getStatus_cases [OF that] by (simp add: lowerIsBetter_def)
  then show ?thesis
    using same MENOR_iff_menor by auto
qed

theorem classification_reads_polarity_only_witness:
  "toLowerCase (Goal.polaridade goal_menor) =
     toLowerCase (Goal.polaridade (goal_maior\<lparr>polaridade := ''MENOR''\<rparr>)) \<and>
   getStatus goal_menor (Str ''49'') (Str ''50'') =
     getStatus (goal_maior\<lparr>polaridade := ''MENOR''\<rparr>) (Str ''49'') (Str ''50'') \<and>
   parseValue (Str ''50'') \<noteq> NaN \<and> parseValue (Str ''49'') \<noteq> NaN \<and>
   toLowerCase (Goal.polaridade goal_menor) = ''menor'' \<and>
   getStatus goal_menor (Str ''49'') (Str ''50'') = \<lparr>text_label = Superada, color = ''green''\<rparr> \<and>
   toLowerCase (Goal.polaridade goal_maior) \<noteq> ''menor'' \<and>
   getStatus goal_maior (Str ''49'') (Str ''50'') =
     \<lparr>text_label = Parcialmente_Alcancada, color = ''orange''\<rparr>"
proof -
  have p: "toLowerCase (Goal.polaridade goal_menor) = ''menor''"
    "toLowerCase (Goal.polaridade (goal_maior\<lparr>polaridade := ''MENOR''\<rparr>)) = ''menor''"
    "toLowerCase (Goal.polaridade goal_maior) \<noteq> ''menor''"
    by (simp_all add: goal_menor_def goal_maior_def text_eval)
  have r: "parseValue (Str ''49'') = Fin 49"
    by (simp add: parse_eval text_eval number_eval)
  have t: "times_num (Fin 50) lit_0_9 = Fin 45"
    by (simp add: number_eval)
  have same: "getStatus goal_menor (Str ''49'') (Str ''50'') =
      getStatus (goal_maior\<lparr>polaridade := ''MENOR''\<rparr>) (Str ''49'') (Str ''50'')"
    using classification_reads_polarity_only
        [of goal_menor "goal_maior\<lparr>polaridade := ''MENOR''\<rparr>" "Str ''49''" "Str ''50''"] p
    by (simp only:)
  have lower: "getStatus goal_menor (Str ''49'') (Str ''50'') = \<lparr>text_label = Superada, color = ''green''\<rparr>"
    using classification_reads_polarity_only [of goal_menor goal_menor "Str ''49''" "Str ''50''"]
      p r parse_50
    by (simp add: lowerIsBetterTiers_def)
  have higher: "getStatus goal_maior (Str ''49'') (Str ''50'') =
      \<lparr>text_label = Parcialmente_Alcancada, color = ''orange''\<rparr>"
    using classification_reads_polarity_only [of goal_maior goal_maior "Str ''49''" "Str ''50''"]
      p r t parse_50
    by (simp add: higherIsBetterTiers_def gt_num_def ge_num_def isNaN_def)
  show ?thesis
    using same lower higher p r parse_50 by simp
qed

subsection \<open>What parseFloat returns\<close>

lemma roundDoublePos_not_NaN: "roundDoublePos q \<noteq> NaN"
  by (simp add: roundDoublePos_def Let_def)

lemma negate_NaN_iff: "negate x = NaN \<longleftrightarrow> x = NaN"
  by (cases x) (simp_all add: negate_def)

lemma roundDouble_not_NaN: "roundDouble q \<noteq> NaN"
  by (simp add: roundDouble_def roundDoublePos_not_NaN negate_NaN_iff)

lemma unsignedLiteral_None_iff:
  "unsignedLiteral u = None \<longleftrightarrow>
     \<not> (u \<noteq> [] \<and> (isDigit (hd u) \<or> (hd u = CHR ''.'' \<and> tl u \<noteq> [] \<and> isDigit (hd (tl u)))))"
proof (cases u)
  case Nil
  then show ?thesis by (simp add: unsignedLiteral_def)
next
  case (Cons c t)
  show ?thesis
  proof (cases "isDigit c")
    case True
    with Cons show ?thesis by (simp add: unsignedLiteral_def Let_def)
  next
    case False
    with Cons show ?thesis
      by (cases t) (auto simp: unsignedLiteral_def Let_def)
  qed
qed

lemma unsignedNumber_NaN_iff:
  "unsignedNumber u = NaN \<longleftrightarrow>
     \<not> (prefix ''Infinity'' u \<or>
        (u \<noteq> [] \<and> (isDigit (hd u) \<or> (hd u = CHR ''.'' \<and> tl u \<noteq> [] \<and> isDigit (hd (tl u))))))"
  using unsignedLiteral_None_iff [of u]
  by (auto simp: unsignedNumber_def roundDouble_not_NaN split: option.splits)

lemma sign_not_digit: "\<not> isDigit (CHR ''-'')" "\<not> isDigit (CHR ''+'')"
  by (simp_all add: isDigit_def)

lemma parseFloat_NaN_iff: "parseFloat s = NaN \<longleftrightarrow> \<not> startsWithLiteral (trimStart s)"
proof (cases "trimStart s")
  case Nil
  then show ?thesis by (simp add: parseFloat_def startsWithLiteral_def dropSign_def)
next
  case (Cons c t)
  then show ?thesis
    using unsignedNumber_NaN_iff [of t] unsignedNumber_NaN_iff [of "c # t"]
    by (simp add: parseFloat_def startsWithLiteral_def dropSign_def negate_NaN_iff Let_def)
qed

lemma trimStart_trim: "trimStart (trim s) = trim s"
proof -
  have "trimStart (rev (dropWhile isWhiteSpace (rev t))) = rev (dropWhile isWhiteSpace (rev t))"
    if "t = [] \<or> \<not> isWhiteSpace (hd t)" for t
  proof (cases "dropWhile isWhiteSpace (rev t) = []")
    case True
    show ?thesis
      unfolding True trimStart_def by simp
  next
    case False
    then have "t \<noteq> []" by auto
    with that have h: "\<not> isWhiteSpace (hd t)" by simp
    obtain k where k: "dropWhile isWhiteSpace (rev t) = drop k (rev t)"
      by (metis dropWhile_eq_drop)
    with False have "k < length t" by simp
    then have "hd (rev (drop k (rev t))) = hd t"
      by (simp add: rev_drop)
    moreover have "rev (drop k (rev t)) \<noteq> []"
      using False k by simp
    ultimately have "\<not> isWhiteSpace (hd (rev (dropWhile isWhiteSpace (rev t))))"
      "rev (dropWhile isWhiteSpace (rev t)) \<noteq> []"
      using h k by simp_all
    then show ?thesis
      by (cases "rev (dropWhile isWhiteSpace (rev t))") (simp_all add: trimStart_def)
  qed
  moreover have "dropWhile isWhiteSpace s = [] \<or> \<not> isWhiteSpace (hd (dropWhile isWhiteSpace s))"
    using hd_dropWhile by blast
  ultimately show ?thesis by (simp add: trim_def)
qed

lemma parseValue_not_placeholder:
  assumes "\<not> isPlaceholder v" and "trim (ToString v) \<noteq> []"
  shows "parseValue v = parseFloat (cleanedText v)"
  using assms by (auto simp: parseValue_def isPlaceholder_def cleanedText_def Let_def)

text \<open>
  C5, amended. For an input that is defined and none of the placeholder cases,
  \<^verbatim>\<open>parseValue\<close> removes the first \<^verbatim>\<open>%\<close>, replaces the first comma by a point, removes the
  first apostrophe, trims the white space at both ends, and returns what \<^verbatim>\<open>parseFloat\<close> reads at the start of that text,
  ignoring whatever follows the literal. The result is NaN exactly when the cleaned text
  does not start with a decimal literal: "garbage" gives NaN, "12abc" gives 12.
\<close>

theorem parseValue_reads_leading_literal:
  "(\<not> isPlaceholder v \<and> trim (ToString v) \<noteq> [] \<longrightarrow>
      parseValue v = parseFloat (cleanedText v) \<and>
      (parseValue v = NaN \<longleftrightarrow> \<not> startsWithLiteral (cleanedText v))) \<and>
   parseValue (Str ''garbage'') = NaN \<and> parseValue (Str ''12abc'') = Fin 12"
proof -
  have "parseValue v = parseFloat (cleanedText v)"
    if "\<not> isPlaceholder v" and "trim (ToString v) \<noteq> []"
    using that by (rule parseValue_not_placeholder)
  moreover have "parseFloat (cleanedText v) = NaN \<longleftrightarrow> \<not> startsWithLiteral (cleanedText v)"
    by (simp add: parseFloat_NaN_iff cleanedText_def trimStart_trim)
  moreover have "parseValue (Str ''garbage'') = NaN"
    by (simp add: parse_eval text_eval number_eval)
  moreover have "parseValue (Str ''12abc'') = Fin 12"
    by (simp add: parse_eval text_eval number_eval)
  ultimately show ?thesis by simp
qed

theorem parseValue_reads_leading_literal_witness:
  "\<not> isPlaceholder (Str ''1,5% (parcial)'') \<and> trim (ToString (Str ''1,5% (parcial)'')) \<noteq> [] \<and>
   cleanedText (Str ''1,5% (parcial)'') = ''1.5 (parcial)'' \<and>
   startsWithLiteral ''1.5 (parcial)'' \<and>
   parseValue (Str ''1,5% (parcial)'') = Fin (3 / 2) \<and>
   \<not> isPlaceholder (Str ''garbage'') \<and> trim (ToString (Str ''garbage'')) \<noteq> [] \<and>
   \<not> startsWithLiteral (cleanedText (Str ''garbage'')) \<and>
   parseValue (Str ''garbage'') = NaN \<and>
   \<not> isPlaceholder (Str [CHR 0xA0, CHR ''5'', CHR '' '']) \<and>
   trim (ToString (Str [CHR 0xA0, CHR ''5'', CHR '' ''])) \<noteq> [] \<and>
   cleanedText (Str [CHR 0xA0, CHR ''5'', CHR '' '']) = ''5'' \<and>
   parseValue (Str [CHR 0xA0, CHR ''5'', CHR '' '']) = Fin 5"
proof -
  have a: "\<not> isPlaceholder (Str ''1,5% (parcial)'')" "trim (ToString (Str ''1,5% (parcial)'')) \<noteq> []"
    "\<not> isPlaceholder (Str ''garbage'')" "trim (ToString (Str ''garbage'')) \<noteq> []"
    "\<not> isPlaceholder (Str [CHR 0xA0, CHR ''5'', CHR '' ''])"
    "trim (ToString (Str [CHR 0xA0, CHR ''5'', CHR '' ''])) \<noteq> []"
    by (simp_all add: isPlaceholder_def text_eval)
  have c: "cleanedText (Str ''1,5% (parcial)'') = ''1.5 (parcial)''"
    "cleanedText (Str ''garbage'') = ''garbage''"
    "cleanedText (Str [CHR 0xA0, CHR ''5'', CHR '' '']) = ''5''"
    by (simp_all add: cleanedText_def text_eval)
  have s: "startsWithLiteral ''1.5 (parcial)''" "\<not> startsWithLiteral ''garbage''"
    by (simp_all add: startsWithLiteral_def dropSign_def isDigit_def)
  have p: "parseFloat ''1.5 (parcial)'' = Fin (3 / 2)" "parseFloat ''5'' = Fin 5"
    by (simp_all add: parse_eval text_eval number_eval)
  have "parseValue (Str ''1,5% (parcial)'') = parseFloat (cleanedText (Str ''1,5% (parcial)''))"
    using parseValue_reads_leading_literal [of "Str ''1,5% (parcial)''"] a by blast
  then have "parseValue (Str ''1,5% (parcial)'') = Fin (3 / 2)"
    by (simp only: c p)
  moreover have "parseValue (Str ''garbage'') = NaN"
    using parseValue_reads_leading_literal [of "Str ''garbage''"] a c s by blast
  moreover have "parseValue (Str [CHR 0xA0, CHR ''5'', CHR '' '']) =
      parseFloat (cleanedText (Str [CHR 0xA0, CHR ''5'', CHR '' '']))"
    using parseValue_reads_leading_literal [of "Str [CHR 0xA0, CHR ''5'', CHR '' '']"] a by blast
  then have "parseValue (Str [CHR 0xA0, CHR ''5'', CHR '' '']) = Fin 5"
    by (simp only: c p)
  ultimately show ?thesis
    using a c s by simp
qed

text \<open>
  The claim as the specification words it fails at "12abc": the text is defined, is no
  placeholder, cleaning leaves it as it is, it is not a number representation, and the
  result is 12. And of the apostrophes of "1'000'000" only the first is removed: the
  result is 1000.
\<close>

theorem parseValue_12abc_counterexample:
  "\<not> isPlaceholder (Str ''12abc'') \<and> trim (ToString (Str ''12abc'')) \<noteq> [] \<and>
   cleanedText (Str ''12abc'') = ''12abc'' \<and> \<not> isDecimalLiteral ''12abc'' \<and>
   parseValue (Str ''12abc'') = Fin 12 \<and> parseValue (Str ''12abc'') \<noteq> NaN \<and>
   cleanedText (Str (''1'' @ [CHR 0x27] @ ''000'' @ [CHR 0x27] @ ''000'')) =
     ''1000'' @ [CHR 0x27] @ ''000'' \<and>
   parseValue (Str (''1'' @ [CHR 0x27] @ ''000'' @ [CHR 0x27] @ ''000'')) = Fin 1000"
proof -
  have "\<not> isPlaceholder (Str ''12abc'')" "trim (ToString (Str ''12abc'')) \<noteq> []"
    by (simp_all add: isPlaceholder_def text_eval)
  moreover have "cleanedText (Str ''12abc'') = ''12abc''"
    by (simp add: cleanedText_def text_eval)
  moreover have "\<not> isDecimalLiteral ''12abc''"
    by (simp add: isDecimalLiteral_def isExponent_def dropSign_def isDigit_def)
  moreover have "parseValue (Str ''12abc'') = Fin 12"
    by (simp add: parse_eval text_eval number_eval)
  moreover have "cleanedText (Str (''1'' @ [CHR 0x27] @ ''000'' @ [CHR 0x27] @ ''000'')) =
      ''1000'' @ [CHR 0x27] @ ''000''"
    by (simp add: cleanedText_def text_eval)
  moreover have "parseValue (Str (''1'' @ [CHR 0x27] @ ''000'' @ [CHR 0x27] @ ''000'')) = Fin 1000"
    by (simp add: parse_eval text_eval number_eval)
  ultimately show ?thesis by simp
qed

text \<open>
  C6. \<^verbatim>\<open>parseValue\<close> returns a number or NaN for every input: it is a total function, and
  no step of it can throw on an undefined, null, text or number argument. On the listed
  inputs: undefined, null, "", "NA", "na", "S/N", "andamento" and "garbage" give NaN,
  "12,5%" gives 12.5, "7" gives 7 and "'3'" gives 3. In general NaN is the result for a
  text that is empty or white space only, that is na or s/n up to letter case, or that
  contains andamento, apurando or mensurado up to letter case.
\<close>

theorem parseValue_total_values:
  "parseValue Undefined = NaN \<and> parseValue Null = NaN \<and> parseValue (Str []) = NaN \<and>
   parseValue (Str ''NA'') = NaN \<and> parseValue (Str ''na'') = NaN \<and>
   parseValue (Str ''S/N'') = NaN \<and> parseValue (Str ''andamento'') = NaN \<and>
   parseValue (Str ''12,5%'') = Fin (25 / 2) \<and> parseValue (Str ''7'') = Fin 7 \<and>
   parseValue (Str [CHR 0x27, CHR ''3'', CHR 0x27]) = Fin 3 \<and>
   parseValue (Str ''garbage'') = NaN \<and>
   (\<forall>s. (\<forall>c \<in> set s. isWhiteSpace c) \<longrightarrow> parseValue (Str s) = NaN) \<and>
   (\<forall>s. toLowerCase s = ''na'' \<or> toLowerCase s = ''s/n'' \<or>
        includes_text (toLowerCase s) ''andamento'' \<or> includes_text (toLowerCase s) ''apurando'' \<or>
        includes_text (toLowerCase s) ''mensurado'' \<longrightarrow> parseValue (Str s) = NaN)"
proof -
  have "parseValue Undefined = NaN" "parseValue Null = NaN"
    by (simp_all add: parseValue_def)
  moreover have "parseValue (Str []) = NaN" "parseValue (Str ''NA'') = NaN"
    "parseValue (Str ''na'') = NaN" "parseValue (Str ''S/N'') = NaN"
    "parseValue (Str ''andamento'') = NaN" "parseValue (Str ''garbage'') = NaN"
    by (simp_all add: parse_eval text_eval number_eval)
  moreover have "parseValue (Str ''12,5%'') = Fin (25 / 2)" "parseValue (Str ''7'') = Fin 7"
    "parseValue (Str [CHR 0x27, CHR ''3'', CHR 0x27]) = Fin 3"
    by (simp_all add: parse_eval text_eval number_eval)
  moreover have "parseValue (Str s) = NaN" if "\<forall>c \<in> set s. isWhiteSpace c" for s
    using that by (rule parseValue_whitespace)
  moreover have "parseValue (Str s) = NaN"
    if "toLowerCase s = ''na'' \<or> toLowerCase s = ''s/n'' \<or>
        includes_text (toLowerCase s) ''andamento'' \<or> includes_text (toLowerCase s) ''apurando'' \<or>
        includes_text (toLowerCase s) ''mensurado''" for s
  proof -
    have "isPlaceholder (Str s)"
      using that by (auto simp: isPlaceholder_def ToString_def)
    then show ?thesis by (rule parseValue_placeholder)
  qed
  ultimately show ?thesis by blast
qed

theorem parseValue_total_values_witness:
  "parseValue (Str [CHR '' '', CHR 0x0A]) = NaN \<and>
   includes_text (toLowerCase ''Apurando (80%)'') ''apurando'' \<and>
   parseValue (Str ''Apurando (80%)'') = NaN \<and>
   toLowerCase ''Na'' = ''na'' \<and> parseValue (Str ''Na'') = NaN"
proof -
  have a: "includes_text (toLowerCase ''Apurando (80%)'') ''apurando''" "toLowerCase ''Na'' = ''na''"
    by (simp_all add: text_eval)
  have "parseValue (Str [CHR '' '', CHR 0x0A]) = NaN"
    using parseValue_total_values by (simp add: isWhiteSpace_def)
  moreover have "parseValue (Str ''Apurando (80%)'') = NaN" "parseValue (Str ''Na'') = NaN"
    using parseValue_total_values a by blast+
  ultimately show ?thesis using a by simp
qed

subsection \<open>Counting simplified statuses\<close>

lemma total_increment_simplified:
  "total (increment (getSimplifiedStatus s) c) = total c + 1"
  by (simp add: increment_def getSimplifiedStatus_def total_def)

lemma total_countGoal:
  "total (countGoal selectedQuad year c goal) = total c + (if hasYear year goal then 1 else 0)"
  by (simp add: countGoal_def hasYear_def Let_def total_increment_simplified split: option.splits)

lemma total_foldl_countGoal:
  "total (foldl (countGoal selectedQuad year) c goals) =
     total c + length (filter (hasYear year) goals)"
  by (induction goals arbitrary: c) (simp_all add: total_countGoal)

lemma total_statusCounts:
  "total (statusCounts selectedQuad year goals) = length (filter (hasYear year) goals)"
proof -
  have "total \<lparr>count_Alcancada = 0, count_Nao_Alcancada = 0, count_Outro = 0\<rparr> = 0"
    by (simp add: total_def)
  then show ?thesis
    by (simp add: statusCounts_def total_foldl_countGoal)
qed

lemma filteredForChart_hasYear:
  assumes "selectedStatusFilter \<noteq> ''todos''"
  shows "filter (hasYear year) (filteredForChart selectedQuad selectedStatusFilter year goals) =
         filteredForChart selectedQuad selectedStatusFilter year goals"
  using assms by (auto simp: filteredForChart_def hasYear_def split: option.splits)

lemma initializeData_2023:
  "initializeData dataSets_2023 =
     [addPlaceholder2025 ((newGoal ''D1'' ''O1'' record_2023)
        \<lparr>yearly_data := [''2023'' \<mapsto> yearRecord record_2023]\<rparr>)]"
  by (simp add: initializeData_def dataSets_2023_def firstPass_def secondPass_def objectValues_def
      newGoal_def)

text \<open>
  C7, amended. For every list of goals, every year and every selected period, the three
  counts add up to the number of goals of the list that have a record for that year: a
  goal without one is skipped. So they add up to the length of the list when every goal
  has a record for the year, and the counts of a chart add up to the number of goals left
  by a status filter other than todos, which keeps goals with a record only.
\<close>

theorem counts_sum_to_goals_with_year:
  "total (statusCounts selectedQuad year goals) = length (filter (hasYear year) goals) \<and>
   ((\<forall>goal \<in> set goals. hasYear year goal) \<longrightarrow>
      total (statusCounts selectedQuad year goals) = length goals) \<and>
   total (chartCounts selectedQuad selectedStatusFilter year goals) =
     length (filter (hasYear year) (filteredForChart selectedQuad selectedStatusFilter year goals)) \<and>
   (selectedStatusFilter \<noteq> ''todos'' \<longrightarrow>
      total (chartCounts selectedQuad selectedStatusFilter year goals) =
        length (filteredForChart selectedQuad selectedStatusFilter year goals))"
proof -
  have "length (filter (hasYear year) goals) = length goals"
    if "\<forall>goal \<in> set goals. hasYear year goal"
    using that by simp
  moreover have "total (chartCounts selectedQuad selectedStatusFilter year goals) =
      length (filteredForChart selectedQuad selectedStatusFilter year goals)"
    if "selectedStatusFilter \<noteq> ''todos''"
    using filteredForChart_hasYear [OF that, of year selectedQuad goals]
    by (simp add: chartCounts_def total_statusCounts)
  ultimately show ?thesis
    by (simp add: chartCounts_def total_statusCounts)
qed

theorem counts_sum_to_goals_with_year_witness:
  "total (statusCounts ''anual'' ''2023'' (initializeData dataSets_2023)) = 1 \<and>
   length (initializeData dataSets_2023) = 1 \<and>
   statusCounts ''anual'' ''2023'' (initializeData dataSets_2023) =
     \<lparr>count_Alcancada = 0, count_Nao_Alcancada = 1, count_Outro = 0\<rparr> \<and>
   total (chartCounts ''1'' Outro ''2025'' (initializeData dataSets_2023)) = 1 \<and>
   length (filteredForChart ''1'' Outro ''2025'' (initializeData dataSets_2023)) = 1"
proof -
  have y: "hasYear ''2023'' (hd (initializeData dataSets_2023))"
    "hasYear ''2025'' (hd (initializeData dataSets_2023))"
    by (simp_all add: initializeData_2023 hasYear_def addPlaceholder2025_def)
  have e: "parseValue (Str ''95%'') = Fin 95" "parseValue (Str ''90%'') = Fin 90"
    by (simp_all add: parse_eval text_eval number_eval)
  have p: "\<not> isPlaceholder (Str ''90%'')" "isPlaceholder (Str ''S/N'')"
    by (simp_all add: isPlaceholder_def text_eval)
  have t: "times_num (Fin 95) lit_0_9 = Fin (171 / 2)"
    by (simp add: number_eval)
  have s: "getStatus g (Str ''90%'') (Str ''95%'') =
      (if toUpperCase (Goal.polaridade g) = ''MENOR'' then lowerIsBetterTiers (Fin 90) (Fin 95)
       else higherIsBetterTiers (Fin 90) (Fin 95))" for g
    by (simp add: getStatus_not_placeholder p e isNaN_def)
  have c: "statusCounts ''anual'' ''2023'' (initializeData dataSets_2023) =
      \<lparr>count_Alcancada = 0, count_Nao_Alcancada = 1, count_Outro = 0\<rparr>"
    by (simp add: initializeData_2023 statusCounts_def countGoal_def addPlaceholder2025_def
        yearRecord_def record_2023_def newGoal_def selectedResult_def s text_eval
        higherIsBetterTiers_def gt_num_def ge_num_def isNaN_def t getSimplifiedStatus_def
        increment_def)
  have f: "filteredForChart ''1'' Outro ''2025'' (initializeData dataSets_2023) =
      initializeData dataSets_2023"
    by (simp add: initializeData_2023 filteredForChart_def addPlaceholder2025_def
        selectedResult_def getStatus_placeholder p getSimplifiedStatus_def)
  show ?thesis
    using counts_sum_to_goals_with_year
        [of "''anual''" "''2023''" "initializeData dataSets_2023" Outro]
      counts_sum_to_goals_with_year [of "''1''" "''2025''" "initializeData dataSets_2023" Outro]
      y c f
    by (simp add: initializeData_2023)
qed

text \<open>
  The claim as the specification words it fails for a goal that the data set has for
  2023 only: it is in the list, the chart of 2022 skips it, and the three counts are 0.
\<close>

theorem counts_2022_counterexample:
  "length (initializeData dataSets_2023) = 1 \<and>
   chartCounts ''anual'' ''todos'' ''2022'' (initializeData dataSets_2023) =
     \<lparr>count_Alcancada = 0, count_Nao_Alcancada = 0, count_Outro = 0\<rparr> \<and>
   total (chartCounts ''anual'' ''todos'' ''2022'' (initializeData dataSets_2023)) \<noteq>
     length (initializeData dataSets_2023)"
  by (simp add: initializeData_2023 chartCounts_def filteredForChart_def statusCounts_def
      countGoal_def addPlaceholder2025_def total_def)

subsection \<open>The passes of initializeData as folds over the quadruples\<close>

lemma foldl_concat_map:
  "foldl f a (concat (map g xs)) = foldl (\<lambda>b x. foldl f b (g x)) a xs"
  by (induction xs arbitrary: a) simp_all

lemma firstPass_quadruples: "firstPass dataSets m = foldl registerGoal m (quadruples dataSets)"
  by (simp add: firstPass_def quadruples_def registerGoal_def foldl_concat_map foldl_map
      case_prod_unfold cong: if_cong)

lemma secondPass_quadruples: "secondPass dataSets m = foldl attachYear m (quadruples dataSets)"
  by (simp add: secondPass_def quadruples_def attachYear_def foldl_concat_map foldl_map
      case_prod_unfold)

subsection \<open>The first pass\<close>

lemma map_of_registerGoal:
  "map_of (registerGoal m q) i =
     (case map_of m i of
        Some goal \<Rightarrow> Some goal
      | None \<Rightarrow> (case q of (year, dir, obj, goalData) \<Rightarrow>
                  if quadId q = i then Some (newGoal dir obj goalData) else None))"
  by (cases q) (auto simp: registerGoal_def quadId_def update_conv' split: option.splits)

lemma map_of_foldl_registerGoal:
  "map_of (foldl registerGoal m qs) i =
     (case map_of m i of
        Some goal \<Rightarrow> Some goal
      | None \<Rightarrow> (case find (\<lambda>q. quadId q = i) qs of
                  None \<Rightarrow> None
                | Some (year, dir, obj, goalData) \<Rightarrow> Some (newGoal dir obj goalData)))"
proof (induction qs arbitrary: m)
  case Nil
  then show ?case by (simp split: option.splits)
next
  case (Cons q qs)
  show ?case
    by (cases q) (simp add: Cons.IH map_of_registerGoal split: option.splits)
qed

lemma distinct_registerGoal:
  "distinct (map fst m) \<Longrightarrow> distinct (map fst (registerGoal m q))"
  by (cases q) (simp add: registerGoal_def distinct_update)

lemma distinct_foldl_registerGoal:
  "distinct (map fst m) \<Longrightarrow> distinct (map fst (foldl registerGoal m qs))"
  by (induction qs arbitrary: m) (simp_all add: distinct_registerGoal)

subsection \<open>The second pass\<close>

lemma map_fst_map_entry: "map fst (AList.map_entry k f m) = map fst m"
  by (induction m) auto

lemma map_fst_attachYear: "map fst (attachYear m q) = map fst m"
  by (cases q) (simp add: attachYear_def map_fst_map_entry)

lemma map_fst_foldl_attachYear: "map fst (foldl attachYear m qs) = map fst m"
  by (induction qs arbitrary: m) (simp_all add: map_fst_attachYear)

lemma map_of_attachYear:
  "map_of (attachYear m q) i =
     (case map_of m i of
        None \<Rightarrow> None
      | Some goal \<Rightarrow>
          if quadId q = i
          then Some (goal\<lparr>yearly_data := (yearly_data goal)(quadYear q \<mapsto> yearRecord (quadRecord q))\<rparr>)
          else Some goal)"
  by (cases q) (auto simp: attachYear_def quadId_def quadYear_def quadRecord_def map_of_map_entry split: option.splits)

text \<open>
  After the second pass an entry has the header the first pass gave it; at a year it has
  the record of the last quadruple of its identifier and that year, and without such a
  quadruple the yearly data it had before.
\<close>

lemma find_snoc:
  "find P (xs @ [x]) = (case find P xs of Some y \<Rightarrow> Some y | None \<Rightarrow> if P x then Some x else None)"
  by (induction xs) simp_all

lemma map_of_foldl_attachYear:
  assumes "map_of (foldl attachYear m qs) i = Some goal'"
  shows "\<exists>goal. map_of m i = Some goal \<and> header goal' = header goal \<and>
           (\<forall>year. yearly_data goal' year =
              (case find (\<lambda>q. quadYear q = year \<and> quadId q = i) (rev qs) of
                 Some q \<Rightarrow> Some (yearRecord (quadRecord q))
               | None \<Rightarrow> yearly_data goal year))"
  using assms
proof (induction qs arbitrary: m goal')
  case Nil
  then show ?case by simp
next
  case (Cons q qs)
  from Cons.prems have "map_of (foldl attachYear (attachYear m q) qs) i = Some goal'"
    by simp
  from Cons.IH [OF this] obtain goal1 where
    g1: "map_of (attachYear m q) i = Some goal1" and
    h1: "header goal' = header goal1" and
    y1: "\<forall>year. yearly_data goal' year =
           (case find (\<lambda>q. quadYear q = year \<and> quadId q = i) (rev qs) of
              Some q \<Rightarrow> Some (yearRecord (quadRecord q))
            | None \<Rightarrow> yearly_data goal1 year)"
    by blast
  from g1 obtain goal where
    g: "map_of m i = Some goal" and
    g1': "goal1 = (if quadId q = i
      then goal\<lparr>yearly_data := (yearly_data goal)(quadYear q \<mapsto> yearRecord (quadRecord q))\<rparr>
      else goal)"
    by (auto simp: map_of_attachYear split: option.splits if_splits)
  have "header goal1 = header goal"
    by (simp add: g1' header_def)
  moreover have "yearly_data goal' year =
      (case find (\<lambda>q. quadYear q = year \<and> quadId q = i) (rev (q # qs)) of
         Some q \<Rightarrow> Some (yearRecord (quadRecord q))
       | None \<Rightarrow> yearly_data goal year)" for year
    by (simp add: y1 g1' find_snoc split: option.splits)
  ultimately show ?case
    using g h1 by auto
qed

lemma map_of_foldl_attachYear_Some:
  assumes "map_of m i = Some goal"
  shows "\<exists>goal'. map_of (foldl attachYear m qs) i = Some goal'"
  using assms
proof (induction qs arbitrary: m goal)
  case Nil
  then show ?case by simp
next
  case (Cons q qs)
  have "\<exists>goal1. map_of (attachYear m q) i = Some goal1"
    by (simp add: map_of_attachYear Cons.prems)
  then show ?case
    using Cons.IH by auto
qed

subsection \<open>The registry before the placeholder year\<close>

lemma registry_entry:
  assumes "map_of (secondPass dataSets (firstPass dataSets [])) i = Some goal"
  shows "\<exists>year dir obj goalData.
           firstQuadruple i dataSets = Some (year, dir, obj, goalData) \<and>
           header goal = header (newGoal dir obj goalData) \<and>
           (\<forall>y. yearly_data goal y =
              map_option (\<lambda>q. yearRecord (quadRecord q)) (lastQuadruple y i dataSets))"
proof -
  from map_of_foldl_attachYear [OF assms [unfolded secondPass_quadruples]]
  obtain goal0 where
    g0: "map_of (firstPass dataSets []) i = Some goal0" and
    h: "header goal = header goal0" and
    y: "\<forall>year. yearly_data goal year =
          (case lastQuadruple year i dataSets of
             Some q \<Rightarrow> Some (yearRecord (quadRecord q))
           | None \<Rightarrow> yearly_data goal0 year)"
    unfolding lastQuadruple_def by blast
  from g0 obtain year dir obj goalData where
    f: "firstQuadruple i dataSets = Some (year, dir, obj, goalData)" and
    n: "goal0 = newGoal dir obj goalData"
    by (auto simp: firstPass_quadruples map_of_foldl_registerGoal firstQuadruple_def
        split: option.splits)
  have "yearly_data goal0 y = None" for y
    by (simp add: n newGoal_def)
  with y have "yearly_data goal y =
      map_option (\<lambda>q. yearRecord (quadRecord q)) (lastQuadruple y i dataSets)" for y
    by (simp split: option.splits)
  with f h n show ?thesis by auto
qed

lemma registry_has_first:
  assumes "firstQuadruple i dataSets = Some (year, dir, obj, goalData)"
  shows "\<exists>goal. map_of (secondPass dataSets (firstPass dataSets [])) i = Some goal"
proof -
  have "map_of (firstPass dataSets []) i = Some (newGoal dir obj goalData)"
    using assms by (simp add: firstPass_quadruples map_of_foldl_registerGoal firstQuadruple_def)
  then show ?thesis
    unfolding secondPass_quadruples by (rule map_of_foldl_attachYear_Some)
qed

lemma registry_distinct: "distinct (map fst (secondPass dataSets (firstPass dataSets [])))"
  by (simp add: secondPass_quadruples firstPass_quadruples map_fst_foldl_attachYear
      distinct_foldl_registerGoal)

lemma registry_key:
  assumes "(k, goal) \<in> set (secondPass dataSets (firstPass dataSets []))"
  shows "Goal.id_no goal = k"
proof -
  have "map_of (secondPass dataSets (firstPass dataSets [])) k = Some goal"
    using assms registry_distinct by simp
  from registry_entry [OF this] obtain year dir obj goalData where
    "firstQuadruple k dataSets = Some (year, dir, obj, goalData)"
    "header goal = header (newGoal dir obj goalData)"
    by blast
  moreover from this(1) have "quadId (year, dir, obj, goalData) = k"
    unfolding firstQuadruple_def by (auto dest: find_Some_iff [THEN iffD1])
  ultimately show ?thesis
    by (simp add: header_def newGoal_def quadId_def)
qed

lemma header_addPlaceholder2025: "header (addPlaceholder2025 goal) = header goal"
  by (simp add: addPlaceholder2025_def header_def Let_def)

lemma id_no_addPlaceholder2025: "Goal.id_no (addPlaceholder2025 goal) = Goal.id_no goal"
  by (simp add: addPlaceholder2025_def Let_def)

lemma initializeData_ids_distinct: "distinct (map Goal.id_no (initializeData dataSets))"
proof -
  let ?m = "secondPass dataSets (firstPass dataSets [])"
  have "Goal.id_no (addPlaceholder2025 (snd p)) = fst p" if "p \<in> set (sort_key fst ?m)" for p
  proof -
    from that have "(fst p, snd p) \<in> set ?m" by simp
    then show ?thesis
      by (simp add: id_no_addPlaceholder2025 registry_key)
  qed
  then have keys: "map (\<lambda>p. Goal.id_no (addPlaceholder2025 (snd p))) (sort_key fst ?m) =
      map fst (sort_key fst ?m)"
    by (simp only: map_eq_conv) blast
  have ids: "map Goal.id_no (initializeData dataSets) =
      map (\<lambda>p. Goal.id_no (addPlaceholder2025 (snd p))) (sort_key fst ?m)"
    by (simp add: initializeData_def objectValues_def)
  have "distinct (map fst (sort_key fst ?m))"
    using registry_distinct [of dataSets] by (simp add: distinct_map)
  then show ?thesis
    unfolding ids keys .
qed

lemma registry_member:
  "goal0 \<in> snd ` set (secondPass dataSets (firstPass dataSets [])) \<longleftrightarrow>
     map_of (secondPass dataSets (firstPass dataSets [])) (Goal.id_no goal0) = Some goal0"
proof
  assume "goal0 \<in> snd ` set (secondPass dataSets (firstPass dataSets []))"
  then obtain k where k: "(k, goal0) \<in> set (secondPass dataSets (firstPass dataSets []))"
    by auto
  then have "Goal.id_no goal0 = k" by (rule registry_key)
  with k show "map_of (secondPass dataSets (firstPass dataSets [])) (Goal.id_no goal0) = Some goal0"
    using registry_distinct [of dataSets] by simp
next
  assume "map_of (secondPass dataSets (firstPass dataSets [])) (Goal.id_no goal0) = Some goal0"
  then have "(Goal.id_no goal0, goal0) \<in> set (secondPass dataSets (firstPass dataSets []))"
    by (rule map_of_SomeD)
  then show "goal0 \<in> snd ` set (secondPass dataSets (firstPass dataSets []))"
    by force
qed

lemma initializeData_member:
  "goal \<in> set (initializeData dataSets) \<longleftrightarrow>
     (\<exists>goal0. map_of (secondPass dataSets (firstPass dataSets [])) (Goal.id_no goal0) = Some goal0 \<and>
        goal = addPlaceholder2025 goal0)"
proof -
  have "set (initializeData dataSets) =
      addPlaceholder2025 ` snd ` set (secondPass dataSets (firstPass dataSets []))"
    by (simp add: initializeData_def objectValues_def image_image)
  then show ?thesis
    using registry_member [of _ dataSets] by blast
qed

lemma filter_unique:
  assumes "distinct (map f xs)" and "x \<in> set xs"
  shows "filter (\<lambda>y. f y = f x) xs = [x]"
  using assms
proof (induction xs)
  case Nil
  then show ?case by simp
next
  case (Cons a xs)
  show ?case
  proof (cases "a = x")
    case True
    with Cons.prems(1) have "f x \<notin> f ` set xs" by simp
    then have "\<forall>y \<in> set xs. f y \<noteq> f x" by (metis imageI)
    then have "filter (\<lambda>y. f y = f x) xs = []" by (simp add: filter_empty_conv)
    with True show ?thesis by simp
  next
    case False
    with Cons.prems have "x \<in> set xs" "f a \<noteq> f x" by auto
    with Cons show ?thesis by simp
  qed
qed

subsection \<open>What initializeData returns\<close>

lemma initializeData_goal:
  assumes "firstQuadruple i dataSets = Some (year, dir, obj, goalData)"
  shows "\<exists>goal0. map_of (secondPass dataSets (firstPass dataSets [])) i = Some goal0 \<and>
           header goal0 = header (newGoal dir obj goalData) \<and>
           filter (\<lambda>g. Goal.id_no g = i) (initializeData dataSets) = [addPlaceholder2025 goal0] \<and>
           (\<forall>y. yearly_data goal0 y =
              map_option (\<lambda>q. yearRecord (quadRecord q)) (lastQuadruple y i dataSets))"
proof -
  from registry_has_first [OF assms] obtain goal0 where
    g0: "map_of (secondPass dataSets (firstPass dataSets [])) i = Some goal0"
    by blast
  from registry_entry [OF g0] assms have
    h: "header goal0 = header (newGoal dir obj goalData)" and
    y: "\<forall>y. yearly_data goal0 y =
          map_option (\<lambda>q. yearRecord (quadRecord q)) (lastQuadruple y i dataSets)"
    by auto
  have "quadId (year, dir, obj, goalData) = i"
    using assms unfolding firstQuadruple_def by (auto dest: find_Some_iff [THEN iffD1])
  with h have i: "Goal.id_no goal0 = i"
    by (simp add: header_def newGoal_def quadId_def)
  with g0 have "addPlaceholder2025 goal0 \<in> set (initializeData dataSets)"
    unfolding initializeData_member by blast
  from filter_unique [OF initializeData_ids_distinct this]
  have "filter (\<lambda>g. Goal.id_no g = i) (initializeData dataSets) = [addPlaceholder2025 goal0]"
    by (simp add: id_no_addPlaceholder2025 i)
  with g0 h y show ?thesis by blast
qed

text \<open>
  C8. For every raw data set and every identifier in it, the normalised registry holds
  exactly one goal with that identifier, and its directive, objective, title and polarity
  are those of the first quadruple, in the order of the loops, that carries the
  identifier. Quadruples that come later with the same identifier, whatever their
  directive, objective, title and polarity, change none of these four fields: for each of
  them the goal has a record at its year, the one of the last quadruple of that year.
\<close>

theorem first_quadruple_fixes_header:
  assumes "firstQuadruple i dataSets = Some (year, dir, obj, goalData)"
  shows "\<exists>goal. filter (\<lambda>g. Goal.id_no g = i) (initializeData dataSets) = [goal] \<and>
           diretriz goal = dir \<and> objetivo goal = obj \<and>
           Goal.title goal = GoalRecord.title goalData \<and>
           Goal.polaridade goal = GoalRecord.polaridade goalData \<and>
           (\<forall>q \<in> set (quadruples dataSets). quadId q = i \<longrightarrow>
              yearly_data goal (quadYear q) =
                map_option (\<lambda>q'. yearRecord (quadRecord q')) (lastQuadruple (quadYear q) i dataSets) \<and>
              yearly_data goal (quadYear q) \<noteq> None)"
proof -
  from initializeData_goal [OF assms] obtain goal0 where
    h: "header goal0 = header (newGoal dir obj goalData)" and
    f: "filter (\<lambda>g. Goal.id_no g = i) (initializeData dataSets) = [addPlaceholder2025 goal0]" and
    y: "\<forall>y. yearly_data goal0 y =
          map_option (\<lambda>q. yearRecord (quadRecord q)) (lastQuadruple y i dataSets)"
    by blast
  let ?goal = "addPlaceholder2025 goal0"
  have "header ?goal = header (newGoal dir obj goalData)"
    using h by (simp add: header_addPlaceholder2025)
  then have fields: "diretriz ?goal = dir" "objetivo ?goal = obj"
    "Goal.title ?goal = GoalRecord.title goalData"
    "Goal.polaridade ?goal = GoalRecord.polaridade goalData"
    by (simp_all add: header_def newGoal_def)
  have years: "yearly_data ?goal (quadYear q) =
        map_option (\<lambda>q'. yearRecord (quadRecord q')) (lastQuadruple (quadYear q) i dataSets) \<and>
      yearly_data ?goal (quadYear q) \<noteq> None"
    if "q \<in> set (quadruples dataSets)" and "quadId q = i" for q
  proof -
    have "\<exists>x \<in> set (rev (quadruples dataSets)). quadYear x = quadYear q \<and> quadId x = i"
      using that by auto
    then have "lastQuadruple (quadYear q) i dataSets \<noteq> None"
      unfolding lastQuadruple_def find_None_iff by blast
    then have some: "yearly_data goal0 (quadYear q) \<noteq> None"
      by (simp add: y)
    then have "yearly_data ?goal (quadYear q) = yearly_data goal0 (quadYear q)"
      by (auto simp: addPlaceholder2025_def Let_def)
    with some y show ?thesis by simp
  qed
  show ?thesis
    using f fields years by blast
qed

theorem first_quadruple_fixes_header_witness:
  "firstQuadruple 7 dataSets_two_years = Some (''2023'', ''D1'', ''O1'', record_2023) \<and>
   map header (filter (\<lambda>g. Goal.id_no g = 7) (initializeData dataSets_two_years)) =
     [(7, ''Cobertura vacinal'', ''maior'', ''D1'', ''O1'')] \<and>
   list_ex (\<lambda>q. quadId q = 7 \<and> quadYear q = ''2024'' \<and> quadRecord q = record_2024_a)
     (quadruples dataSets_two_years)"
proof -
  have f: "firstQuadruple 7 dataSets_two_years = Some (''2023'', ''D1'', ''O1'', record_2023)"
    by (simp add: firstQuadruple_def quadruples_def dataSets_two_years_def quadId_def
        record_2023_def)
  have q: "list_ex (\<lambda>q. quadId q = 7 \<and> quadYear q = ''2024'' \<and> quadRecord q = record_2024_a)
      (quadruples dataSets_two_years)"
    by (simp add: quadruples_def dataSets_two_years_def quadId_def quadYear_def quadRecord_def
        record_2024_a_def)
  from first_quadruple_fixes_header [OF f] obtain goal where
    "filter (\<lambda>g. Goal.id_no g = 7) (initializeData dataSets_two_years) = [goal]"
    "header goal = (7, ''Cobertura vacinal'', ''maior'', ''D1'', ''O1'')"
    by (auto simp: header_def record_2023_def dest: filter_eq_ConsD)
  with f q show ?thesis by simp
qed

subsection \<open>The placeholder year\<close>

lemma addPlaceholder2025_record:
  assumes "yearly_data goal0 ''2025'' = None"
  shows "yearly_data (addPlaceholder2025 goal0) ''2025'' =
           Some \<lparr>YearlyGoalData.esperado =
                   (case yearly_data goal0 ''2024'' of
                      None \<Rightarrow> Str ''N/A''
                    | Some d \<Rightarrow> if truthy (YearlyGoalData.esperado d)
                               then YearlyGoalData.esperado d else Str ''N/A''),
                 resultado = Str ''S/N'',
                 quadrimestres =
                   Some [''1'' \<mapsto> Str ''S/N'', ''2'' \<mapsto> Str ''S/N'', ''3'' \<mapsto> Str ''S/N'']\<rparr> \<and>
         yearly_data (addPlaceholder2025 goal0) ''2024'' = yearly_data goal0 ''2024''"
  using assms by (simp add: addPlaceholder2025_def Let_def truthy_def split: option.splits)

lemma initializeData_two_years:
  "initializeData dataSets_two_years =
     [addPlaceholder2025 ((newGoal ''D2'' ''O2'' record_2024_b)
        \<lparr>yearly_data := [''2024'' \<mapsto> yearRecord record_2024_b]\<rparr>),
      addPlaceholder2025 ((newGoal ''D1'' ''O1'' record_2023)
        \<lparr>yearly_data := [''2023'' \<mapsto> yearRecord record_2023, ''2024'' \<mapsto> yearRecord record_2024_a]\<rparr>)]"
  by (simp add: initializeData_def dataSets_two_years_def firstPass_def secondPass_def
      objectValues_def newGoal_def record_2023_def record_2024_a_def record_2024_b_def)

text \<open>
  C4, amended. After normalisation, every goal for which the data set has no record of
  the year 2025 has a 2025 record whose annual result is "S/N", whose results for the
  periods "1", "2" and "3" are "S/N", and whose expected value is its 2024 expected value
  when that is a non-empty text or a number other than 0 and NaN, and is "N/A" when the
  goal has no 2024 record or the 2024 expected value is undefined, null or the empty
  text.
\<close>

theorem placeholder_2025_record:
  assumes "goal \<in> set (initializeData dataSets)"
      and "lastQuadruple ''2025'' (Goal.id_no goal) dataSets = None"
  shows "\<exists>yearData quads.
           yearly_data goal ''2025'' = Some yearData \<and>
           YearlyGoalData.resultado yearData = Str ''S/N'' \<and>
           YearlyGoalData.quadrimestres yearData = Some quads \<and>
           quads ''1'' = Some (Str ''S/N'') \<and> quads ''2'' = Some (Str ''S/N'') \<and>
           quads ''3'' = Some (Str ''S/N'') \<and>
           (case yearly_data goal ''2024'' of
              None \<Rightarrow> YearlyGoalData.esperado yearData = Str ''N/A''
            | Some d \<Rightarrow>
                (truthy (YearlyGoalData.esperado d) \<longrightarrow>
                   YearlyGoalData.esperado yearData = YearlyGoalData.esperado d) \<and>
                (YearlyGoalData.esperado d = Undefined \<or> YearlyGoalData.esperado d = Null \<or>
                 YearlyGoalData.esperado d = Str [] \<longrightarrow>
                   YearlyGoalData.esperado yearData = Str ''N/A''))"
proof -
  from assms(1) obtain goal0 where
    g0: "map_of (secondPass dataSets (firstPass dataSets [])) (Goal.id_no goal0) = Some goal0" and
    g: "goal = addPlaceholder2025 goal0"
    unfolding initializeData_member by blast
  from registry_entry [OF g0] have
    "yearly_data goal0 ''2025'' =
       map_option (\<lambda>q. yearRecord (quadRecord q)) (lastQuadruple ''2025'' (Goal.id_no goal0) dataSets)"
    by blast
  with assms(2) have "yearly_data goal0 ''2025'' = None"
    by (simp add: g id_no_addPlaceholder2025)
  from addPlaceholder2025_record [OF this] show ?thesis
    unfolding g by (auto simp: truthy_def split: option.splits)
qed

theorem placeholder_2025_record_witness:
  "lastQuadruple ''2025'' 7 dataSets_two_years = None \<and>
   map (\<lambda>g. map_option YearlyGoalData.esperado (yearly_data g ''2024''))
     (filter (\<lambda>g. Goal.id_no g = 7) (initializeData dataSets_two_years)) = [Some (Str ''97%'')] \<and>
   truthy (Str ''97%'') \<and>
   map (\<lambda>g. map_option YearlyGoalData.esperado (yearly_data g ''2025''))
     (filter (\<lambda>g. Goal.id_no g = 7) (initializeData dataSets_two_years)) = [Some (Str ''97%'')] \<and>
   map (\<lambda>g. map_option YearlyGoalData.resultado (yearly_data g ''2025''))
     (filter (\<lambda>g. Goal.id_no g = 7) (initializeData dataSets_two_years)) = [Some (Str ''S/N'')]"
proof -
  let ?goal = "addPlaceholder2025 ((newGoal ''D1'' ''O1'' record_2023)
      \<lparr>yearly_data := [''2023'' \<mapsto> yearRecord record_2023, ''2024'' \<mapsto> yearRecord record_2024_a]\<rparr>)"
  have i: "Goal.id_no ?goal = 7"
    by (simp add: id_no_addPlaceholder2025 newGoal_def record_2023_def)
  have f: "filter (\<lambda>g. Goal.id_no g = 7) (initializeData dataSets_two_years) = [?goal]"
    by (simp add: initializeData_two_years id_no_addPlaceholder2025 newGoal_def record_2023_def
        record_2024_b_def)
  have m: "?goal \<in> set (initializeData dataSets_two_years)"
    by (simp add: initializeData_two_years)
  have l: "lastQuadruple ''2025'' 7 dataSets_two_years = None"
    by (simp add: lastQuadruple_def quadruples_def dataSets_two_years_def quadYear_def)
  have y: "map_option YearlyGoalData.esperado (yearly_data ?goal ''2024'') = Some (Str ''97%'')"
    by (simp add: addPlaceholder2025_def Let_def yearRecord_def record_2024_a_def)
  have t: "truthy (Str ''97%'')"
    by (simp add: truthy_def)
  from placeholder_2025_record [OF m] l i y t
  have "map_option YearlyGoalData.esperado (yearly_data ?goal ''2025'') = Some (Str ''97%'')"
    "map_option YearlyGoalData.resultado (yearly_data ?goal ''2025'') = Some (Str ''S/N'')"
    by (auto split: option.splits)
  with f l y t show ?thesis by simp
qed

text \<open>
  The claim as the specification words it fails for a goal whose 2024 expected value is
  the empty text: the value is there, and the 2025 expected value is "N/A", not that
  text.
\<close>

theorem placeholder_2025_counterexample:
  "lastQuadruple ''2025'' 3 dataSets_two_years = None \<and>
   Goal.id_no (hd (initializeData dataSets_two_years)) = 3 \<and>
   map_option YearlyGoalData.esperado (yearly_data (hd (initializeData dataSets_two_years)) ''2024'') =
     Some (Str []) \<and>
   map_option YearlyGoalData.esperado (yearly_data (hd (initializeData dataSets_two_years)) ''2025'') =
     Some (Str ''N/A'') \<and>
   map_option YearlyGoalData.esperado (yearly_data (hd (initializeData dataSets_two_years)) ''2025'') \<noteq>
     map_option YearlyGoalData.esperado (yearly_data (hd (initializeData dataSets_two_years)) ''2024'')"
proof -
  have "lastQuadruple ''2025'' 3 dataSets_two_years = None"
    by (simp add: lastQuadruple_def quadruples_def dataSets_two_years_def quadYear_def)
  then show ?thesis
    by (simp add: initializeData_two_years addPlaceholder2025_def Let_def yearRecord_def
        newGoal_def record_2024_b_def truthy_def)
qed

end
